theory Spec2Isabelle
  imports Complex_Main "HOL-Library.AList" "HOL-Library.Finite_Map" "HOL-Library.Sublist"
begin

section \<open>Ephemeral cache (src/memory/cache.py)\<close>

text \<open>
  The module keeps one process-wide dictionary \<open>_cache\<close> from keys to entries
  \<open>{"data", "expiry", "created_at"}\<close>; it is a finite map. \<open>time.time()\<close> is passed in as
  the argument \<open>now\<close>; clock values are rationals, the TTL is the integer number of
  seconds of the signature. Every function runs under \<open>_cache_lock\<close>, so each call is one
  atomic step on the dictionary: it takes the dictionary and returns the new one.
\<close>

record 'v cache_entry =
  data :: 'v
  expiry :: rat
  created_at :: rat

type_synonym 'v cache = "(string, 'v cache_entry) fmap"

definition cache_data :: "rat \<Rightarrow> string \<Rightarrow> 'v \<Rightarrow> int \<Rightarrow> 'v cache \<Rightarrow> 'v cache" where
  "cache_data now key d ttl_seconds c =
     fmupd key \<lparr>data = d, expiry = now + of_int ttl_seconds, created_at = now\<rparr> c"

definition get_cached_data :: "rat \<Rightarrow> string \<Rightarrow> 'v cache \<Rightarrow> 'v option \<times> 'v cache" where
  "get_cached_data now key c =
     (case fmlookup c key of
        None \<Rightarrow> (None, c)
      | Some cache_entry \<Rightarrow>
          if now > expiry cache_entry then (None, fmdrop key c)
          else (Some (data cache_entry), c))"

definition clear_cache :: "string option \<Rightarrow> 'v cache \<Rightarrow> 'v cache" where
  "clear_cache key c = (case key of None \<Rightarrow> fmempty | Some k \<Rightarrow> fmdrop k c)"

definition keys_to_clear :: "rat \<Rightarrow> 'v cache \<Rightarrow> string fset" where
  "keys_to_clear now c =
     ffilter (\<lambda>key. case fmlookup c key of None \<Rightarrow> False | Some entry \<Rightarrow> now > expiry entry)
       (fmdom c)"

definition clear_expired_entries :: "rat \<Rightarrow> 'v cache \<Rightarrow> nat \<times> 'v cache" where
  "clear_expired_entries now c =
     (fcard (keys_to_clear now c), fmdrop_fset (keys_to_clear now c) c)"

text \<open>The periodic cleaner thread: one sweep at each of the given clock readings.\<close>

definition clean_periodically :: "rat list \<Rightarrow> 'v cache \<Rightarrow> 'v cache" where
  "clean_periodically ts c = fold (\<lambda>t c'. snd (clear_expired_entries t c')) ts c"


section \<open>Python values and exceptions\<close>

text \<open>
  The values that cross the module boundaries are parsed JSON documents. An exception is
  a value: \<open>External msg\<close> is one raised by a collaborator (the RPC client, \<open>requests\<close>,
  the reasoning service), with \<open>str(e) = msg\<close>; the others are the ones the interpreter
  raises for an operation on a value of the wrong type.
\<close>

datatype json =
    JNull
  | JBool bool
  | JNum rat
  | JStr string
  | JArr "json list"
  | JObj "(string \<times> json) list"

datatype exception = TypeError | KeyError | AttributeError | NameError | External string

fun bind_exn :: "exception + 'a \<Rightarrow> ('a \<Rightarrow> exception + 'b) \<Rightarrow> exception + 'b" where
  "bind_exn (Inl e) f = Inl e"
| "bind_exn (Inr x) f = f x"

text \<open>\<open>needle in container\<close> for a string needle: key of a dict, element of a list,
  substring of a string; any other right operand is not iterable.\<close>

fun py_in :: "string \<Rightarrow> json \<Rightarrow> exception + bool" where
  "py_in s (JObj kvs) = Inr (s \<in> fst ` set kvs)"
| "py_in s (JArr xs) = Inr (JStr s \<in> set xs)"
| "py_in s (JStr t) = Inr (sublist s t)"
| "py_in s _ = Inl TypeError"

text \<open>\<open>container[key]\<close> for a string key.\<close>

fun py_getitem :: "json \<Rightarrow> string \<Rightarrow> exception + json" where
  "py_getitem (JObj kvs) k = (case map_of kvs k of None \<Rightarrow> Inl KeyError | Some v \<Rightarrow> Inr v)"
| "py_getitem _ k = Inl TypeError"

text \<open>\<open>container.get(key, default)\<close>: only a dict has the method.\<close>

fun py_get :: "json \<Rightarrow> string \<Rightarrow> json \<Rightarrow> exception + json" where
  "py_get (JObj kvs) k d = Inr (case map_of kvs k of None \<Rightarrow> d | Some v \<Rightarrow> v)"
| "py_get _ k d = Inl AttributeError"

text \<open>\<open>x / 1e9\<close>: defined on numbers (\<open>bool\<close> is a subclass of \<open>int\<close>).\<close>

fun div_1e9 :: "json \<Rightarrow> exception + rat" where
  "div_1e9 (JNum r) = Inr (r / 10 ^ 9)"
| "div_1e9 (JBool b) = Inr ((if b then 1 else 0) / 10 ^ 9)"
| "div_1e9 _ = Inl TypeError"

section \<open>Blockchain client (src/blockchain/solana_client.py)\<close>

text \<open>A reply of \<open>requests.post\<close>: the call raises, or returns a status code and a body
  whose \<open>.json()\<close> raises or parses.\<close>

datatype body = JsonRaises exception | Json json

datatype http_response = PostRaises exception | Http int body

subsection \<open>get_wallet_balance\<close>

text \<open>
  \<open>primary\<close> is the outcome of lines 73-79 (\<open>client.get_balance(pubkey)\<close> and the read of
  \<open>.value\<close>, in lamports); \<open>fallback\<close> is the reply to the direct \<open>getBalance\<close> request.
  The function returns a number; the sum type keeps the place where an exception
  leaving the function would be recorded.
\<close>

definition balance_fallback_body :: "http_response \<Rightarrow> exception + rat" where
  "balance_fallback_body response =
     (case response of
        PostRaises e \<Rightarrow> Inl e
      | Http status_code b \<Rightarrow>
          if status_code = 200 then
            (case b of
               JsonRaises e \<Rightarrow> Inl e
             | Json result \<Rightarrow>
                 bind_exn (py_in ''result'' result) (\<lambda>has_result.
                 if has_result then
                   bind_exn (py_getitem result ''result'') (\<lambda>inner.
                   bind_exn (py_in ''value'' inner) (\<lambda>has_value.
                   if has_value then
                     bind_exn (py_getitem inner ''value'') div_1e9
                   else Inr 0))
                 else Inr 0))
          else Inr 0)"

definition get_wallet_balance :: "exception + int \<Rightarrow> http_response \<Rightarrow> exception + rat" where
  "get_wallet_balance primary fallback =
     (case primary of
        Inr balance_lamports \<Rightarrow> Inr (of_int balance_lamports / 10 ^ 9)
      | Inl e \<Rightarrow>
          (case balance_fallback_body fallback of
             Inr balance_sol \<Rightarrow> Inr balance_sol
           | Inl fallback_error \<Rightarrow> Inr 0))"

text \<open>
  What the claim calls a failure of the fallback, stated on the reply alone: the request
  raises, the status is not 200, the body does not parse, or the parsed body is not an
  object with an object under \<open>"result"\<close> that has a number under \<open>"value"\<close>.
\<close>

fun is_balance_reply :: "json \<Rightarrow> bool" where
  "is_balance_reply (JObj kvs) =
     (case map_of kvs ''result'' of
        Some (JObj inner) \<Rightarrow>
          (case map_of inner ''value'' of
             Some (JNum r) \<Rightarrow> True | Some (JBool b) \<Rightarrow> True | _ \<Rightarrow> False)
      | _ \<Rightarrow> False)"
| "is_balance_reply _ = False"

fun fallback_failed :: "http_response \<Rightarrow> bool" where
  "fallback_failed (PostRaises e) = True"
| "fallback_failed (Http status_code (JsonRaises e)) = True"
| "fallback_failed (Http status_code (Json result)) =
     (status_code \<noteq> 200 \<or> \<not> is_balance_reply result)"

subsection \<open>send_serialized_transaction\<close>

text \<open>
  What a run does to the outside world is recorded as a trace: each call of the
  network submission, each confirmation poll and each \<open>time.sleep\<close> with its duration
  (and, for the callers of this module, each request for a swap transaction and each
  balance query).
  The returned dictionary is \<open>{"result": v}\<close> or \<open>{"error": ...}\<close>.
\<close>

datatype event = Send nat | Confirm string | Sleep int | RequestSwap json | QueryBalance

datatype tx_outcome =
    TxResult json
  | TxError json
  | TxErrorMessage string
  | TxErrorException exception
  | TxErrorHttp int

text \<open>\<open>client.send_raw_transaction\<close>: raises, returns something without a usable
  \<open>.value\<close>, or returns a transaction id.\<close>

datatype send_response = SendRaises exception | SendNoValue | SendTxid string

definition backoff :: "int \<Rightarrow> int \<Rightarrow> nat \<Rightarrow> event list" where
  "backoff max_retries retry_delay attempt =
     (if int attempt < max_retries - 1 then [Sleep (retry_delay * 2 ^ attempt)] else [])"

function send_attempts ::
  "(nat \<Rightarrow> send_response) \<Rightarrow> int \<Rightarrow> int \<Rightarrow> nat \<Rightarrow> tx_outcome \<times> event list" where
  "send_attempts send_raw_transaction max_retries retry_delay attempt =
     (if int attempt < max_retries then
        (case send_raw_transaction attempt of
           SendTxid v \<Rightarrow> (TxResult (JStr v), [Send attempt, Confirm v])
         | _ \<Rightarrow>
             (let (r, tr) = send_attempts send_raw_transaction max_retries retry_delay (Suc attempt)
              in (r, Send attempt # backoff max_retries retry_delay attempt @ tr)))
      else (TxErrorMessage ''All transaction attempts failed'', []))"
  by pat_completeness auto
termination
  by (relation "measure (\<lambda>(s, m, d, a). nat (m - int a))") auto

text \<open>\<open>prepare\<close> is the outcome of decoding and signing (lines 127-135).\<close>

definition send_serialized_transaction ::
  "exception + unit \<Rightarrow> (nat \<Rightarrow> send_response) \<Rightarrow> int \<Rightarrow> int \<Rightarrow> tx_outcome \<times> event list" where
  "send_serialized_transaction prepare send_raw_transaction max_retries retry_delay =
     (case prepare of
        Inl e \<Rightarrow> (TxErrorException e, [])
      | Inr _ \<Rightarrow> send_attempts send_raw_transaction max_retries retry_delay 0)"

fun slept :: "event list \<Rightarrow> int" where
  "slept [] = 0"
| "slept (Sleep d # es) = d + slept es"
| "slept (_ # es) = slept es"

fun is_send :: "event \<Rightarrow> bool" where
  "is_send (Send k) = True"
| "is_send _ = False"

fun is_txid :: "send_response \<Rightarrow> bool" where
  "is_txid (SendTxid v) = True"
| "is_txid _ = False"

text \<open>The events of the failed attempts \<open>0 .. j-1\<close>, each followed by its backoff.\<close>

definition failed_prefix :: "int \<Rightarrow> nat \<Rightarrow> event list" where
  "failed_prefix retry_delay j =
     concat (map (\<lambda>k. [Send k, Sleep (retry_delay * 2 ^ k)]) [0..<j])"

subsection \<open>send_serialized_transaction_fallback\<close>

definition placeholder_signature :: string where
  "placeholder_signature =
     ''1111111111111111111111111111111111111111111111111111111111111111''"

datatype attempt_step = Return tx_outcome | Retry | NextAttempt

text \<open>\<open>any(err in error_msg for err in [...])\<close>, left to right, stopping at the first hit.\<close>

fun any_in :: "string list \<Rightarrow> json \<Rightarrow> exception + bool" where
  "any_in [] error_msg = Inr False"
| "any_in (err # errs) error_msg =
     bind_exn (py_in err error_msg) (\<lambda>hit. if hit then Inr True else any_in errs error_msg)"

definition fallback_try_body :: "http_response \<Rightarrow> bool \<Rightarrow> exception + attempt_step" where
  "fallback_try_body response retries_left =
     (case response of
        PostRaises e \<Rightarrow> Inl e
      | Http status_code b \<Rightarrow>
          if status_code = 200 then
            (case b of
               JsonRaises e \<Rightarrow> Inl e
             | Json result \<Rightarrow>
                 bind_exn (py_in ''result'' result) (\<lambda>has_result.
                 if has_result then
                   bind_exn (py_getitem result ''result'') (\<lambda>tx_sig.
                   if tx_sig = JStr placeholder_signature \<and> retries_left then Inr Retry
                   else Inr (Return (TxResult tx_sig)))
                 else
                   bind_exn (py_in ''error'' result) (\<lambda>has_error.
                   if has_error then
                     bind_exn (py_get result ''error'' (JObj [])) (\<lambda>err_obj.
                     bind_exn (py_get err_obj ''message'' (JStr ''Unknown error'')) (\<lambda>error_msg.
                     bind_exn (any_in [''timeout'', ''rate limit'', ''too busy'', ''blockhash'',
                                       ''timed out''] error_msg) (\<lambda>retryable.
                     if retryable \<and> retries_left then Inr Retry
                     else bind_exn (py_getitem result ''error'') (\<lambda>e. Inr (Return (TxError e))))))
                   else Inr NextAttempt)))
          else if retries_left then Inr Retry
          else Inr (Return (TxErrorHttp status_code)))"

definition fallback_attempt :: "http_response \<Rightarrow> bool \<Rightarrow> attempt_step" where
  "fallback_attempt response retries_left =
     (case fallback_try_body response retries_left of
        Inr step \<Rightarrow> step
      | Inl e \<Rightarrow> if retries_left then Retry else Return (TxErrorException e))"

function fallback_attempts ::
  "(nat \<Rightarrow> http_response) \<Rightarrow> int \<Rightarrow> int \<Rightarrow> nat \<Rightarrow> tx_outcome \<times> event list" where
  "fallback_attempts post max_retries retry_delay attempt =
     (if int attempt < max_retries then
        (case fallback_attempt (post attempt) (int attempt < max_retries - 1) of
           Return r \<Rightarrow> (r, [Send attempt])
         | Retry \<Rightarrow>
             (let (r, tr) = fallback_attempts post max_retries retry_delay (Suc attempt)
              in (r, Send attempt # Sleep (retry_delay * 2 ^ attempt) # tr))
         | NextAttempt \<Rightarrow>
             (let (r, tr) = fallback_attempts post max_retries retry_delay (Suc attempt)
              in (r, Send attempt # tr)))
      else (TxErrorMessage ''All transaction attempts failed'', []))"
  by pat_completeness auto
termination
  by (relation "measure (\<lambda>(p, m, d, a). nat (m - int a))") auto

definition send_serialized_transaction_fallback ::
  "(nat \<Rightarrow> http_response) \<Rightarrow> int \<Rightarrow> int \<Rightarrow> tx_outcome \<times> event list" where
  "send_serialized_transaction_fallback post max_retries retry_delay =
     fallback_attempts post max_retries retry_delay 0"

section \<open>Trade execution action\<close>

text \<open>
  A tool returns a dictionary (the result envelope). Its values are booleans, strings,
  numbers, parsed JSON, nested dictionaries, the dictionary returned by the submission
  subsystem, the text \<open>str(e)\<close> of a caught exception, \<open>None\<close>, or lists of these.
\<close>

datatype pyval =
    PBool bool
  | PStr string
  | PNum rat
  | PJson json
  | PDict "(string \<times> pyval) list"
  | PTx tx_outcome
  | PExn exception
  | PNone
  | PList "pyval list"

type_synonym envelope = "(string \<times> pyval) list"

text \<open>Truth value of an object in a condition: \<open>None\<close>, \<open>False\<close>, zero and empty
  containers are false.\<close>

fun truthy :: "json \<Rightarrow> bool" where
  "truthy JNull = False"
| "truthy (JBool b) = b"
| "truthy (JNum r) = (r \<noteq> 0)"
| "truthy (JStr s) = (s \<noteq> [])"
| "truthy (JArr xs) = (xs \<noteq> [])"
| "truthy (JObj kvs) = (kvs \<noteq> [])"

text \<open>
  The collaborators of one call: \<open>py_str\<close> is the text an f-string puts for a value,
  \<open>now_iso\<close> is \<open>datetime.now().isoformat()\<close>, \<open>swap_transaction\<close> is the outcome of the
  request for a swap transaction, \<open>tx_prepare\<close> and \<open>tx_send_raw\<close> are the outcomes inside
  \<open>send_serialized_transaction\<close>, \<open>balance_primary\<close> and \<open>balance_fallback\<close> those inside
  \<open>get_wallet_balance\<close>. A run returns the envelope and the trace of its network effects.
\<close>

record trade_env =
  py_str :: "json \<Rightarrow> string"
  now_iso :: string
  swap_transaction :: "exception + json"
  tx_prepare :: "exception + unit"
  tx_send_raw :: "nat \<Rightarrow> send_response"
  balance_primary :: "exception + int"
  balance_fallback :: http_response

subsection \<open>execute_trade_tool (src/agent/langgraph_trading_agent.py)\<close>

text \<open>
  The body of the \<open>try\<close> block, lines 428-468; \<open>Inl e\<close> is an exception that reaches the
  handler of line 470. The source calls \<open>get_swap_transaction(quote_data)\<close> with one
  argument where \<open>src/data/jupiter.py\<close> declares two, so in the repository
  \<open>swap_transaction\<close> is always \<open>Inl TypeError\<close>; the model keeps the outcome open.
\<close>

definition execute_trade_body ::
  "trade_env \<Rightarrow> string \<Rightarrow> string \<Rightarrow> rat \<Rightarrow> json \<Rightarrow> bool \<Rightarrow> string
     \<Rightarrow> (exception + envelope) \<times> event list" where
  "execute_trade_body env trade_type token_address amount_sol quote_data dry_run reasoning =
     (if dry_run then
        (Inr [(''success'', PBool True),
              (''message'', PStr (''Dry run: '' @ trade_type @ '' '' @ py_str env (JNum amount_sol)
                                   @ '' SOL of '' @ token_address)),
              (''trade_type'', PStr trade_type),
              (''token_address'', PStr token_address),
              (''amount_sol'', PNum amount_sol),
              (''dry_run'', PBool True),
              (''reasoning'', PStr reasoning),
              (''simulated_result'', PDict [(''transaction_id'', PStr ''dry_run_simulation''),
                                            (''status'', PStr ''simulated_success'')]),
              (''timestamp'', PStr (now_iso env))], [])
      else if \<not> truthy quote_data then
        (Inr [(''success'', PBool False), (''error'', PStr ''No quote data provided'')], [])
      else
        (case swap_transaction env of
           Inl e \<Rightarrow> (Inl e, [RequestSwap quote_data])
         | Inr transaction \<Rightarrow>
             if \<not> truthy transaction then
               (Inr [(''success'', PBool False),
                     (''error'', PStr ''Failed to get transaction from Jupiter'')],
                [RequestSwap quote_data])
             else
               (let (result, tr) = send_serialized_transaction (tx_prepare env) (tx_send_raw env) 3 2
                in (Inr [(''success'', PBool True),
                         (''message'', PStr (''Executed '' @ trade_type @ '' of ''
                                              @ py_str env (JNum amount_sol) @ '' SOL for ''
                                              @ token_address)),
                         (''trade_type'', PStr trade_type),
                         (''token_address'', PStr token_address),
                         (''amount_sol'', PNum amount_sol),
                         (''dry_run'', PBool False),
                         (''reasoning'', PStr reasoning),
                         (''transaction_result'', PTx result),
                         (''timestamp'', PStr (now_iso env))],
                    RequestSwap quote_data # tr))))"

definition execute_trade_tool ::
  "trade_env \<Rightarrow> string \<Rightarrow> string \<Rightarrow> rat \<Rightarrow> json \<Rightarrow> bool \<Rightarrow> string
     \<Rightarrow> envelope \<times> event list" where
  "execute_trade_tool env trade_type token_address amount_sol quote_data dry_run reasoning =
     (case execute_trade_body env trade_type token_address amount_sol quote_data dry_run reasoning of
        (Inr result, tr) \<Rightarrow> (result, tr)
      | (Inl e, tr) \<Rightarrow> ([(''success'', PBool False), (''error'', PExn e)], tr))"

subsection \<open>The execute_trade branch of _execute_tool (src/agent/pure_ai_agent.py)\<close>

text \<open>\<open>kwargs.get(key)\<close> and \<open>kwargs.get(key, default)\<close> on the keyword dictionary.\<close>

definition kwargs_get :: "(string \<times> json) list \<Rightarrow> string \<Rightarrow> json \<Rightarrow> json" where
  "kwargs_get kwargs k d = (case map_of kwargs k of None \<Rightarrow> d | Some v \<Rightarrow> v)"

definition execute_tool_trade_body ::
  "trade_env \<Rightarrow> (string \<times> json) list \<Rightarrow> (exception + envelope) \<times> event list" where
  "execute_tool_trade_body env kwargs =
     (let trade_type = kwargs_get kwargs ''trade_type'' JNull;
          token_address = kwargs_get kwargs ''token_address'' JNull;
          amount_sol = kwargs_get kwargs ''amount_sol'' JNull;
          quote_data = kwargs_get kwargs ''quote_data'' JNull;
          dry_run = kwargs_get kwargs ''dry_run'' (JBool True);
          reasoning = kwargs_get kwargs ''reasoning'' JNull
      in if truthy dry_run then
           (Inr [(''success'', PBool True),
                 (''message'', PStr (''Dry run - '' @ py_str env trade_type @ '' ''
                                      @ py_str env amount_sol @ '' SOL of ''
                                      @ py_str env token_address)),
                 (''reasoning'', PJson reasoning),
                 (''quote'', PJson quote_data)], [])
         else if truthy quote_data then
           (case get_wallet_balance (balance_primary env) (balance_fallback env) of
              Inl e \<Rightarrow> (Inl e, [QueryBalance])
            | Inr balance \<Rightarrow>
                (case swap_transaction env of
                   Inl e \<Rightarrow> (Inl e, [QueryBalance, RequestSwap quote_data])
                 | Inr swap_tx \<Rightarrow>
                     if truthy swap_tx then
                       (let (result, tr) =
                              send_serialized_transaction (tx_prepare env) (tx_send_raw env) 3 2
                        in (Inr [(''success'', PBool True),
                                 (''transaction_result'', PTx result),
                                 (''reasoning'', PJson reasoning)],
                            QueryBalance # RequestSwap quote_data # tr))
                     else
                       (Inr [(''success'', PBool False),
                             (''error'', PStr ''Failed to get swap transaction'')],
                        [QueryBalance, RequestSwap quote_data])))
         else
           (Inr [(''success'', PBool False), (''error'', PStr ''No quote data provided'')], []))"

definition execute_tool_trade ::
  "trade_env \<Rightarrow> (string \<times> json) list \<Rightarrow> envelope \<times> event list" where
  "execute_tool_trade env kwargs =
     (case execute_tool_trade_body env kwargs of
        (Inr result, tr) \<Rightarrow> (result, tr)
      | (Inl e, tr) \<Rightarrow> ([(''success'', PBool False), (''error'', PExn e)], tr))"

text \<open>A run submits a transaction when its trace holds a network submission.\<close>

definition submits :: "event list \<Rightarrow> bool" where
  "submits tr = list_ex is_send tr"

section \<open>Agent state and the trading cycle\<close>

text \<open>
  \<open>AgentState\<close> is a typed dictionary; a key that is absent is \<open>None\<close> here, and
  \<open>state.get(key, default)\<close> is \<open>get_or\<close>. Only the keys the orchestration code reads
  or writes are kept. The module \<open>src/agent/state.py\<close> is not among the source
  files: \<open>load_agent_state\<close>, \<open>create_initial_state\<close>, \<open>validate_state_structure\<close>,
  \<open>migrate_legacy_state\<close>, \<open>update_portfolio_metrics\<close> and \<open>get_state_summary\<close> are
  parameters of the model (fields of \<open>cycle_env\<close>).
\<close>

record previous_error =
  pe_error :: string
  pe_timestamp :: "string option"
  pe_resolved :: bool

record error_log_entry =
  el_timestamp :: string
  el_error :: string
  el_error_type :: string

record agent_state =
  cycles_completed :: "int option"
  wallet_balance_sol :: "rat option"
  active_positions :: "json list option"
  tools_used_this_cycle :: "string list option"
  tools_executed_successfully :: "bool option"
  agent_parameters :: "(string \<times> json) list option"
  trading_mode :: "string option"
  thread_id :: "string option"
  session_active :: "bool option"
  error :: "string option"
  error_timestamp :: "string option"
  error_type :: "string option"
  previous_errors :: "previous_error list option"
  error_log :: "error_log_entry list option"
  agent_reasoning :: "string option"
  ai_strategy :: "string option"
  last_update_timestamp :: "string option"
  last_cycle_timestamp :: "string option"
  state_healthy :: "bool option"
  should_stop :: "bool option"
  fatal_error :: "bool option"
  agent_health :: "json option"

definition empty_state :: agent_state where
  "empty_state =
     \<lparr>cycles_completed = None, wallet_balance_sol = None, active_positions = None,
      tools_used_this_cycle = None, tools_executed_successfully = None,
      agent_parameters = None, trading_mode = None, thread_id = None, session_active = None,
      error = None, error_timestamp = None, error_type = None, previous_errors = None,
      error_log = None, agent_reasoning = None, ai_strategy = None,
      last_update_timestamp = None, last_cycle_timestamp = None, state_healthy = None,
      should_stop = None, fatal_error = None, agent_health = None\<rparr>"

definition get_or :: "'a option \<Rightarrow> 'a \<Rightarrow> 'a" where
  "get_or v d = (case v of None \<Rightarrow> d | Some x \<Rightarrow> x)"

text \<open>Truth values: a dictionary is true when it has a key, an optional dictionary when
  it is not \<open>None\<close> and has a key, a string when it is not empty.\<close>

definition dict_truthy :: "agent_state \<Rightarrow> bool" where
  "dict_truthy s = (s \<noteq> empty_state)"

definition opt_dict_truthy :: "agent_state option \<Rightarrow> bool" where
  "opt_dict_truthy v = (case v of None \<Rightarrow> False | Some s \<Rightarrow> dict_truthy s)"

definition str_truthy :: "string option \<Rightarrow> bool" where
  "str_truthy v = (case v of None \<Rightarrow> False | Some s \<Rightarrow> s \<noteq> [])"

definition flag_truthy :: "bool option \<Rightarrow> bool" where
  "flag_truthy v = (case v of None \<Rightarrow> False | Some b \<Rightarrow> b)"

text \<open>\<open>str(e)\<close>: the message of an exception raised by a collaborator; for the
  interpreter's own exceptions the text is abstracted to the class name.\<close>

fun str_of_exception :: "exception \<Rightarrow> string" where
  "str_of_exception (External msg) = msg"
| "str_of_exception TypeError = ''TypeError''"
| "str_of_exception KeyError = ''KeyError''"
| "str_of_exception AttributeError = ''AttributeError''"
| "str_of_exception NameError = ''NameError''"

text \<open>A message of the reasoning service's reply: \<open>msg_content\<close> and \<open>msg_name\<close> are
  \<open>None\<close> when the object has no such attribute.\<close>

record message =
  msg_content :: "string option"
  msg_name :: "string option"

record cycle_env =
  clock :: string
  load_agent_state :: "exception + agent_state option"
  create_initial_state :: agent_state
  validate_state_structure :: "agent_state \<Rightarrow> bool"
  migrate_legacy_state :: "agent_state \<Rightarrow> agent_state"
  update_portfolio_metrics :: "agent_state \<Rightarrow> exception + agent_state"
  agent_invoke :: "exception + message list"

text \<open>
  Modelled from the spec: \<open>save_agent_state\<close> (of the missing \<open>src/agent/state.py\<close>)
  overwrites the whole persisted document with the state it is given. A run returns
  the documents it saved, in order; the last one is what is persisted.
\<close>

definition save_agent_state :: "agent_state \<Rightarrow> agent_state list" where
  "save_agent_state s = [s]"

subsection \<open>CompleteLangGraphTradingAgent.run_trading_cycle\<close>

text \<open>The \<open>try\<close> block, lines 670-759, up to the state that is saved and returned.
  The handler's \<open>initial_state\<close> is the value the caller passed.\<close>

definition cycle_try_body :: "cycle_env \<Rightarrow> agent_state option \<Rightarrow> exception + agent_state" where
  "cycle_try_body env initial_state =
     bind_exn (case initial_state of
                 None \<Rightarrow> bind_exn (load_agent_state env) (\<lambda>loaded.
                           Inr (if opt_dict_truthy loaded then the loaded
                                else create_initial_state env))
               | Some s \<Rightarrow> Inr s) (\<lambda>state0.
     bind_exn (update_portfolio_metrics env state0) (\<lambda>state1.
     let cycles = get_or (cycles_completed state1) 0 in
     bind_exn (agent_invoke env) (\<lambda>final_messages.
     let state2 = (if final_messages \<noteq> [] then
                     (case msg_content (last final_messages) of
                        Some c \<Rightarrow> state1\<lparr>agent_reasoning := Some c\<rparr>
                      | None \<Rightarrow> state1)
                   else state1);
         tools_used = concat (map (\<lambda>msg. case msg_name msg of None \<Rightarrow> [] | Some n \<Rightarrow> [n])
                                final_messages)
     in Inr (state2\<lparr>cycles_completed := Some (cycles + 1),
                    last_update_timestamp := Some (clock env),
                    ai_strategy := Some ''complete_langgraph_execution'',
                    tools_used_this_cycle := Some tools_used,
                    tools_executed_successfully := Some (tools_used \<noteq> [])\<rparr>))))"

definition run_trading_cycle ::
  "cycle_env \<Rightarrow> agent_state option \<Rightarrow> agent_state \<times> agent_state list" where
  "run_trading_cycle env initial_state =
     (case cycle_try_body env initial_state of
        Inr state \<Rightarrow> (state, save_agent_state state)
      | Inl e \<Rightarrow>
          (let error_state0 = (if opt_dict_truthy initial_state then the initial_state
                               else create_initial_state env);
               error_state = error_state0
                 \<lparr>cycles_completed := Some (get_or (cycles_completed error_state0) 0 + 1),
                  error_log := Some (get_or (error_log error_state0) [] @
                     [\<lparr>el_timestamp = clock env, el_error = str_of_exception e,
                       el_error_type = ''complete_langgraph_execution''\<rparr>]),
                  agent_reasoning := Some (''Complete LangGraph execution error: ''
                                           @ str_of_exception e)\<rparr>
           in (error_state, save_agent_state error_state)))"

subsection \<open>run_trading_agent (src/agent/__init__.py)\<close>

text \<open>\<open>current_params.update(parameters)\<close> on dictionaries kept as association lists.\<close>

definition dict_update :: "(string \<times> json) list \<Rightarrow> (string \<times> json) list \<Rightarrow> (string \<times> json) list" where
  "dict_update current_params parameters =
     fold (\<lambda>(k, v) m. AList.update k v m) parameters current_params"

definition merge_parameters :: "(string \<times> json) list option \<Rightarrow> agent_state \<Rightarrow> agent_state" where
  "merge_parameters parameters state =
     (case parameters of
        None \<Rightarrow> state
      | Some ps \<Rightarrow>
          if ps = [] then state
          else
            (let state1 = state\<lparr>agent_parameters :=
                             Some (dict_update (get_or (agent_parameters state) []) ps)\<rparr>
             in case map_of ps ''dry_run'' of
                  None \<Rightarrow> state1
                | Some d \<Rightarrow> state1\<lparr>trading_mode :=
                             Some (if truthy d then ''dry_run'' else ''live'')\<rparr>))"

definition clear_previous_error :: "agent_state \<Rightarrow> agent_state" where
  "clear_previous_error state =
     (case error state of
        None \<Rightarrow> state
      | Some err \<Rightarrow>
          state\<lparr>previous_errors := Some (get_or (previous_errors state) [] @
                    [\<lparr>pe_error = err, pe_timestamp = error_timestamp state, pe_resolved = True\<rparr>]),
                error := None,
                error_timestamp := None\<rparr>)"

text \<open>
  The \<open>try\<close> block, lines 53-136. \<open>Inl (e, st)\<close> is an exception reaching the handler
  of line 138, with the local variable \<open>state\<close> if it was assigned by then. The cycle
  function always returns a dictionary, so the \<open>isinstance\<close> branch is not taken.
\<close>

definition agent_try_body ::
  "cycle_env \<Rightarrow> (string \<times> json) list option \<Rightarrow> agent_state option \<Rightarrow> string option
     \<Rightarrow> (exception \<times> agent_state option) + (agent_state \<times> agent_state list)" where
  "agent_try_body env parameters previous_state session =
     (case (if opt_dict_truthy previous_state then Inr (the previous_state)
            else (case load_agent_state env of
                    Inl e \<Rightarrow> Inl e
                  | Inr None \<Rightarrow> Inr (create_initial_state env)
                  | Inr (Some loaded) \<Rightarrow>
                      Inr (if \<not> validate_state_structure env loaded
                           then migrate_legacy_state env loaded else loaded))) of
        Inl e \<Rightarrow> Inl (e, None)
      | Inr state0 \<Rightarrow>
          (let state1 = (if str_truthy session
                         then state0\<lparr>thread_id := session, session_active := Some True\<rparr>
                         else state0);
               state2 = merge_parameters parameters state1;
               state3 = clear_previous_error state2;
               (updated_state, saved) = run_trading_cycle env (Some state3);
               final_state = updated_state
                 \<lparr>last_cycle_timestamp := Some (clock env),
                  state_healthy := Some (\<not> str_truthy (error updated_state))\<rparr>
           in Inr (final_state, saved @ save_agent_state final_state)))"

definition run_trading_agent ::
  "cycle_env \<Rightarrow> (string \<times> json) list option \<Rightarrow> agent_state option \<Rightarrow> string option
     \<Rightarrow> agent_state \<times> agent_state list" where
  "run_trading_agent env parameters previous_state session =
     (case agent_try_body env parameters previous_state session of
        Inr r \<Rightarrow> r
      | Inl (e, st) \<Rightarrow>
          (let error_state0 =
                 (case st of
                    Some state \<Rightarrow> if opt_dict_truthy previous_state then the previous_state
                                  else state
                  | None \<Rightarrow> create_initial_state env);
               error_state = error_state0
                 \<lparr>error := Some (str_of_exception e),
                  error_timestamp := Some (clock env),
                  error_type := Some ''run_trading_agent_failure'',
                  cycles_completed := Some (get_or (cycles_completed error_state0) 0 + 1),
                  state_healthy := Some False\<rparr>
           in (error_state, save_agent_state error_state)))"

section \<open>Background runner (src/agent/__init__.py)\<close>

text \<open>
  The module-level variables \<open>_agent_thread\<close>, \<open>_agent_running\<close>, \<open>_agent_stop_flag\<close>,
  \<open>_current_thread_id\<close> and \<open>_current_state\<close>, together with the worker threads that
  \<open>start_agent_background\<close> has created. A worker is \<open>Spawned\<close> from \<open>Thread.start()\<close>
  until it executes the first statement of \<open>background_trading_loop\<close>, then \<open>Looping\<close>,
  then \<open>Exited\<close>. \<open>agent_thread\<close> is the index of the last worker created.
\<close>

datatype worker = Spawned | Looping | Exited

record runner =
  agent_thread :: "nat option"
  agent_running :: bool
  agent_stop_flag :: bool
  current_thread_id :: "string option"
  current_state :: "agent_state option"
  workers :: "worker list"

definition initial_runner :: runner where
  "initial_runner =
     \<lparr>agent_thread = None, agent_running = False, agent_stop_flag = False,
      current_thread_id = None, current_state = None, workers = []\<rparr>"

subsection \<open>start_agent_background\<close>

text \<open>\<open>thread_start_raises\<close> is whether creating or starting the thread raises
  (lines 270-278). The function does not touch \<open>_agent_running\<close> on success: the
  worker sets it.\<close>

definition start_agent_background :: "bool \<Rightarrow> runner \<Rightarrow> bool \<times> runner" where
  "start_agent_background thread_start_raises r =
     (if agent_running r then (False, r)
      else if thread_start_raises then (False, r\<lparr>agent_running := False\<rparr>)
      else (True, r\<lparr>agent_thread := Some (length (workers r)),
                     workers := workers r @ [Spawned]\<rparr>))"

text \<open>Lines 173-181, the first statements a worker executes, and the \<open>finally\<close>
  block of lines 264-267, the last.\<close>

definition worker_begin :: "nat \<Rightarrow> string \<Rightarrow> runner \<Rightarrow> runner" where
  "worker_begin w session r =
     r\<lparr>agent_running := True, agent_stop_flag := False,
       current_thread_id := Some session, current_state := None,
       workers := (workers r)[w := Looping]\<rparr>"

definition worker_finally :: "nat \<Rightarrow> runner \<Rightarrow> runner" where
  "worker_finally w r =
     r\<lparr>agent_running := False, current_state := None, current_thread_id := None,
       workers := (workers r)[w := Exited]\<rparr>"

text \<open>The steps of the process that matter to \<open>start\<close>: a call of
  \<open>start_agent_background\<close> by the caller's thread, or a worker reaching its first
  statement. A schedule is run from left to right; the results of the \<open>start\<close> calls
  are collected in order.\<close>

datatype step = Start | WorkerBegins nat

fun run_schedule :: "step list \<Rightarrow> runner \<Rightarrow> bool list \<times> runner" where
  "run_schedule [] r = ([], r)"
| "run_schedule (Start # steps) r =
     (let (started, r1) = start_agent_background False r;
          (rest, r2) = run_schedule steps r1
      in (started # rest, r2))"
| "run_schedule (WorkerBegins w # steps) r =
     run_schedule steps (worker_begin w ''trading_session'' r)"

definition active_workers :: "runner \<Rightarrow> nat" where
  "active_workers r = length (filter (\<lambda>w. w \<noteq> Exited) (workers r))"

subsection \<open>background_trading_loop\<close>

text \<open>
  What the surroundings decide in one iteration of the \<open>while\<close> loop: the value of
  \<open>_agent_stop_flag\<close> read by the loop condition (line 186) and by the check after the
  cycle (line 227), and the outcome of \<open>run_trading_agent\<close> for the state threaded in
  from the previous iteration. With the typed state and an integer
  \<open>cycle_time_seconds\<close> the logging and the sleep of lines 219-249 do not raise, and the
  stop checks inside the sleep only shorten it; they are not part of the control flow
  kept here.
\<close>

record iteration =
  stop_at_loop_head :: bool
  cycle :: "agent_state option \<Rightarrow> exception + agent_state"
  stop_after_cycle :: bool

datatype stop_reason = StopFlag | TooManyErrors | StateStop

record loop_exit =
  reason :: stop_reason
  cycles_run :: nat
  consecutive_errors :: nat

definition max_consecutive_errors :: nat where
  "max_consecutive_errors = 3"

text \<open>One pass through the loop body: \<open>Inl\<close> when the loop is left, \<open>Inr\<close> with the
  new error counter and the new \<open>_current_state\<close> when it goes round again.\<close>

definition loop_body ::
  "iteration \<Rightarrow> nat \<Rightarrow> agent_state option \<Rightarrow> (stop_reason \<times> nat) + (nat \<times> agent_state option)" where
  "loop_body it errors cur =
     (case cycle it cur of
        Inl cycle_error \<Rightarrow>
          (if errors + 1 \<ge> max_consecutive_errors then Inl (TooManyErrors, errors + 1)
           else Inr (errors + 1, cur))
      | Inr new_state \<Rightarrow>
          (let errored = str_truthy (error new_state);
               errors1 = (if errored then errors + 1 else 0)
           in if errored \<and> errors1 \<ge> max_consecutive_errors then Inl (TooManyErrors, errors1)
              else if flag_truthy (should_stop new_state) \<or> flag_truthy (fatal_error new_state)
                then Inl (StateStop, errors1)
              else if stop_after_cycle it then Inl (StopFlag, errors1)
              else Inr (errors1, Some new_state)))"

text \<open>The loop may run for ever; \<open>fuel\<close> bounds the number of iterations, and \<open>None\<close>
  is the run that has not left the loop when the fuel is used up.\<close>

fun background_trading_loop ::
  "nat \<Rightarrow> (nat \<Rightarrow> iteration) \<Rightarrow> nat \<Rightarrow> nat \<Rightarrow> agent_state option \<Rightarrow> loop_exit option" where
  "background_trading_loop 0 its i errors cur = None"
| "background_trading_loop (Suc fuel) its i errors cur =
     (if stop_at_loop_head (its i) then
        Some \<lparr>reason = StopFlag, cycles_run = i, consecutive_errors = errors\<rparr>
      else
        (case loop_body (its i) errors cur of
           Inl (why, errors1) \<Rightarrow>
             Some \<lparr>reason = why, cycles_run = Suc i, consecutive_errors = errors1\<rparr>
         | Inr (errors1, cur1) \<Rightarrow> background_trading_loop fuel its (Suc i) errors1 cur1))"

text \<open>What the claim calls an errored cycle and a clean cycle, with no stop requested:
  the cycle raises or returns a state whose \<open>error\<close> is true, respectively returns a
  state whose \<open>error\<close> is not; in both the state carries no stop marker and the stop
  flag is not set.\<close>

definition no_stop :: "iteration \<Rightarrow> agent_state option \<Rightarrow> bool" where
  "no_stop it cur =
     (\<not> stop_at_loop_head it \<and> \<not> stop_after_cycle it \<and>
      (case cycle it cur of
         Inl e \<Rightarrow> True
       | Inr s \<Rightarrow> \<not> flag_truthy (should_stop s) \<and> \<not> flag_truthy (fatal_error s)))"

definition errored_cycle :: "iteration \<Rightarrow> agent_state option \<Rightarrow> bool" where
  "errored_cycle it cur =
     (case cycle it cur of Inl e \<Rightarrow> True | Inr s \<Rightarrow> str_truthy (error s))"

definition clean_cycle :: "iteration \<Rightarrow> agent_state option \<Rightarrow> bool" where
  "clean_cycle it cur =
     (case cycle it cur of Inl e \<Rightarrow> False | Inr s \<Rightarrow> \<not> str_truthy (error s))"

subsection \<open>get_agent_status\<close>

text \<open>
  \<open>self\<close> is not a parameter of the module-level function \<open>get_agent_status\<close> and not a
  global of the module: evaluating the name raises.
\<close>

definition lookup_self :: "exception + unit" where
  "lookup_self = Inl NameError"

definition determine_status :: "agent_state \<Rightarrow> string" where
  "determine_status state =
     (if str_truthy (error state) then ''error''
      else if get_or (cycles_completed state) 0 = 0 then ''initialized''
      else if get_or (tools_used_this_cycle state) [] = [] then ''idle''
      else if length (get_or (active_positions state) []) > 0 then ''trading''
      else ''active'')"

definition opt_str :: "string option \<Rightarrow> pyval" where
  "opt_str v = (case v of None \<Rightarrow> PNone | Some s \<Rightarrow> PStr s)"

definition thread_alive :: "runner \<Rightarrow> bool" where
  "thread_alive r =
     (case agent_thread r of
        None \<Rightarrow> False
      | Some w \<Rightarrow> w < length (workers r) \<and> workers r ! w \<noteq> Exited)"

text \<open>The \<open>try\<close> block, lines 326-378; \<open>summary\<close> is the outcome of the missing
  \<open>get_state_summary\<close>. The entries of the dictionary are evaluated in order, so the
  lookup of \<open>self\<close> comes after the summary and before the dictionary exists.\<close>

definition status_try_body ::
  "cycle_env \<Rightarrow> (agent_state \<Rightarrow> exception + json) \<Rightarrow> runner \<Rightarrow> exception + envelope" where
  "status_try_body env get_state_summary r =
     bind_exn (if opt_dict_truthy (current_state r) then Inr (current_state r)
               else load_agent_state env) (\<lambda>st.
     if opt_dict_truthy st then
       (let state = the st in
        bind_exn (get_state_summary state) (\<lambda>summary.
        bind_exn lookup_self (\<lambda>self.
        Inr [(''running'', PBool (agent_running r)),
             (''thread_alive'', PBool (thread_alive r)),
             (''current_thread_id'', opt_str (current_thread_id r)),
             (''cycles_completed'', PNum (of_int (get_or (cycles_completed state) 0))),
             (''last_update'', opt_str (if str_truthy (last_cycle_timestamp state)
                                        then last_cycle_timestamp state
                                        else last_update_timestamp state)),
             (''wallet_balance_sol'', PNum (get_or (wallet_balance_sol state) 0)),
             (''active_positions'',
                PNum (of_nat (length (get_or (active_positions state) [])))),
             (''tools_used_last_cycle'',
                PList (map PStr (get_or (tools_used_this_cycle state) []))),
             (''agent_type'', PStr ''LangGraph_Enhanced''),
             (''session_active'', PBool (get_or (session_active state) False)),
             (''state_healthy'', PBool (get_or (state_healthy state) True)),
             (''consecutive_errors'',
                PNum (of_nat (length (filter (\<lambda>e. \<not> pe_resolved e)
                                         (get_or (previous_errors state) []))))),
             (''status'', PStr (determine_status state)),
             (''summary'', PJson summary),
             (''agent_health'', PJson (get_or (agent_health state) (JObj []))),
             (''trading_mode'', PStr (get_or (trading_mode state) ''dry_run'')),
             (''ai_strategy'', PStr (get_or (ai_strategy state) ''unknown'')),
             (''current_error'', opt_str (error state)),
             (''error_timestamp'', opt_str (error_timestamp state))])))
     else
       Inr [(''running'', PBool (agent_running r)),
            (''thread_alive'', PBool (thread_alive r)),
            (''current_thread_id'', opt_str (current_thread_id r)),
            (''cycles_completed'', PNum 0),
            (''last_update'', PNone),
            (''wallet_balance_sol'', PNum 0),
            (''active_positions'', PNum 0),
            (''tools_used_last_cycle'', PList []),
            (''agent_type'', PStr ''LangGraph_Enhanced''),
            (''status'', PStr ''initialized''),
            (''state_healthy'', PBool True)])"

text \<open>The function reads the runner variables and returns the snapshot; it returns the
  runner variables as well, to show what it leaves of them.\<close>

definition get_agent_status ::
  "cycle_env \<Rightarrow> (agent_state \<Rightarrow> exception + json) \<Rightarrow> runner \<Rightarrow> envelope \<times> runner" where
  "get_agent_status env get_state_summary r =
     (case status_try_body env get_state_summary r of
        Inr status \<Rightarrow> (status, r)
      | Inl e \<Rightarrow>
          ([(''running'', PBool (agent_running r)),
            (''status'', PStr ''error''),
            (''error'', PExn e),
            (''state_healthy'', PBool False)], r))"

section \<open>Verified properties\<close>

subsection \<open>Cache visibility\<close>

lemma lookup_clear_expired:
  "fmlookup (snd (clear_expired_entries now c)) k =
     (case fmlookup c k of None \<Rightarrow> None
      | Some e \<Rightarrow> if now > expiry e then None else Some e)"
  by (auto simp: clear_expired_entries_def keys_to_clear_def fmlookup_dom_iff split: option.splits)

lemma clean_periodically_keeps:
  "fmlookup c k = Some e \<Longrightarrow> list_all (\<lambda>t. t \<le> expiry e) ts \<Longrightarrow>
   fmlookup (clean_periodically ts c) k = Some e"
  unfolding clean_periodically_def
  by (induction ts arbitrary: c) (auto simp: lookup_clear_expired)

lemma clean_periodically_absent:
  "fmlookup c k = None \<Longrightarrow> fmlookup (clean_periodically ts c) k = None"
  unfolding clean_periodically_def
  by (induction ts arbitrary: c) (auto simp: lookup_clear_expired)

lemma clean_periodically_cases:
  "fmlookup c k = Some e \<Longrightarrow>
   fmlookup (clean_periodically ts c) k = Some e \<or> fmlookup (clean_periodically ts c) k = None"
proof (induction ts arbitrary: c)
  case Nil
  then show ?case by (simp add: clean_periodically_def)
next
  case (Cons t ts)
  have step: "clean_periodically (t # ts) c = clean_periodically ts (snd (clear_expired_entries t c))"
    by (simp add: clean_periodically_def)
  show ?case
  proof (cases "t > expiry e")
    case True
    then have "fmlookup (snd (clear_expired_entries t c)) k = None"
      using Cons.prems by (simp add: lookup_clear_expired)
    then show ?thesis
      unfolding step by (simp add: clean_periodically_absent)
  next
    case False
    then have "fmlookup (snd (clear_expired_entries t c)) k = Some e"
      using Cons.prems by (simp add: lookup_clear_expired)
    from Cons.IH[OF this] show ?thesis unfolding step .
  qed
qed

text \<open>
  Claim C7, as the code has it. After \<open>cache_data\<close> stores \<open>v\<close> under \<open>k\<close> at clock
  reading \<open>t0\<close> with TTL \<open>T\<close>, a \<open>get_cached_data\<close> for \<open>k\<close> at clock reading \<open>now\<close> returns
  \<open>v\<close> exactly when \<open>now \<le> t0 + T\<close> and absent when \<open>now > t0 + T\<close>. The test is the
  strict \<open>current_time > expiry\<close> of the source, made on the read itself: the result is
  the same whatever sweeps the cleaner thread has run in between (none, or any number
  of them at earlier clock readings).
\<close>

theorem cache_ttl_visibility:
  assumes "list_all (\<lambda>t. t \<le> now) ts"
  shows "fst (get_cached_data now k (clean_periodically ts (cache_data t0 k v T c)))
         = (if now \<le> t0 + of_int T then Some v else None)"
proof -
  let ?e = "\<lparr>data = v, expiry = t0 + of_int T, created_at = t0\<rparr>"
  have put: "fmlookup (cache_data t0 k v T c) k = Some ?e"
    by (simp add: cache_data_def)
  show ?thesis
  proof (cases "now \<le> t0 + of_int T")
    case True
    with assms have "list_all (\<lambda>t. t \<le> expiry ?e) ts"
      by (auto simp: list_all_iff)
    from clean_periodically_keeps[OF put this] True show ?thesis
      by (simp add: get_cached_data_def)
  next
    case False
    with clean_periodically_cases[OF put, of ts] show ?thesis
      by (auto simp: get_cached_data_def)
  qed
qed

theorem cache_ttl_visibility_witness:
  "list_all (\<lambda>t. t \<le> (3::rat)) [1, 2] \<and>
   fst (get_cached_data 3 ''k'' (clean_periodically [1, 2] (cache_data 0 ''k'' ''v'' 5 fmempty)))
     = Some ''v'' \<and>
   fst (get_cached_data 6 ''k'' (clean_periodically [] (cache_data 0 ''k'' ''v'' 5 fmempty)))
     = None"
  using cache_ttl_visibility[of 3 "[1, 2]" "''k''" 0 "''v''" 5 fmempty]
        cache_ttl_visibility[of 6 "[]" "''k''" 0 "''v''" 5 fmempty]
  by simp

text \<open>
  The claim as worded puts the boundary one instant earlier ("readable iff now < expiry"):
  at \<open>now = expiry\<close> the entry stored at time 0 with TTL 5 is still returned at time 5.
\<close>

theorem cache_readable_at_expiry_counterexample:
  "\<not> ((5::rat) < 0 + of_int 5) \<and>
   fst (get_cached_data 5 ''k'' (cache_data 0 ''k'' ''v'' 5 fmempty)) = Some ''v''"
  by (simp add: get_cached_data_def cache_data_def)

subsection \<open>Transaction submission: retry bound and backoff\<close>

declare send_attempts.simps [simp del]

lemma send_attempts_count:
  "length (filter is_send (snd (send_attempts s m d a))) \<le> nat (m - int a)"
proof (induction s m d a rule: send_attempts.induct)
  case (1 s m d a)
  show ?case
  proof (cases "int a < m")
    case False
    then show ?thesis by (simp add: send_attempts.simps[of s m d a])
  next
    case True
    show ?thesis
    proof (cases "s a")
      case (SendTxid v)
      with True show ?thesis by (simp add: send_attempts.simps[of s m d a])
    next
      case (SendRaises e)
      with True "1.IH"(1)[OF True SendRaises] show ?thesis
        by (auto simp add: send_attempts.simps[of s m d a] backoff_def split: prod.splits)
    next
      case SendNoValue
      with True "1.IH"(2)[OF True SendNoValue] show ?thesis
        by (auto simp add: send_attempts.simps[of s m d a] backoff_def split: prod.splits)
    qed
  qed
qed

lemma send_attempts_fail_step:
  "int a < m \<Longrightarrow> \<not> is_txid (s a) \<Longrightarrow>
   send_attempts s m d a =
     (fst (send_attempts s m d (Suc a)),
      Send a # backoff m d a @ snd (send_attempts s m d (Suc a)))"
  by (cases "s a") (simp_all add: send_attempts.simps[of s m d a] split: prod.splits)

lemma send_attempts_ok_step:
  "int a < m \<Longrightarrow> s a = SendTxid v \<Longrightarrow>
   send_attempts s m d a = (TxResult (JStr v), [Send a, Confirm v])"
  by (simp add: send_attempts.simps[of s m d a])

lemma send_attempts_done:
  "\<not> int a < m \<Longrightarrow> send_attempts s m d a = (TxErrorMessage ''All transaction attempts failed'', [])"
  by (simp add: send_attempts.simps[of s m d a])

text \<open>After \<open>j\<close> failed attempts the run continues with attempt \<open>j\<close>.\<close>

lemma send_attempts_prefix:
  "j < n \<Longrightarrow> \<forall>k<j. \<not> is_txid (s k) \<Longrightarrow>
   send_attempts s (int n) d 0 =
     (fst (send_attempts s (int n) d j), failed_prefix d j @ snd (send_attempts s (int n) d j))"
proof (induction j)
  case 0
  then show ?case by (simp add: failed_prefix_def)
next
  case (Suc j)
  then have IH: "send_attempts s (int n) d 0 =
     (fst (send_attempts s (int n) d j), failed_prefix d j @ snd (send_attempts s (int n) d j))"
    by simp
  have "int j < int n" "\<not> is_txid (s j)" "int j < int n - 1" using Suc.prems by auto
  then have "send_attempts s (int n) d j =
     (fst (send_attempts s (int n) d (Suc j)),
      Send j # Sleep (d * 2 ^ j) # snd (send_attempts s (int n) d (Suc j)))"
    using send_attempts_fail_step[of j "int n" s d] by (simp add: backoff_def)
  with IH show ?case by (simp add: failed_prefix_def)
qed

lemma slept_append: "slept (xs @ ys) = slept xs + slept ys"
  by (induction xs rule: slept.induct) simp_all

lemma slept_failed_prefix: "slept (failed_prefix d j) = d * (2 ^ j - 1)"
  by (induction j) (simp_all add: failed_prefix_def slept_append algebra_simps)

text \<open>
  Claim C5, as the code has it. A submission with \<open>max_retries = n\<close> and base delay \<open>d\<close>
  makes at most \<open>n\<close> network submission attempts, whatever the node answers. The backoff
  after the failed attempt \<open>k\<close> is \<open>d * 2 ^ k\<close> and is slept only when another attempt
  follows (\<open>attempt < max_retries - 1\<close>): when all \<open>n\<close> attempts fail the run is attempt 0,
  sleep \<open>d\<close>, attempt 1, sleep \<open>2d\<close>, ..., attempt \<open>n - 1\<close>, then the error
  "All transaction attempts failed", and the time slept in total is \<open>d * (2 ^ (n - 1) - 1)\<close>,
  that is \<open>d * (1 + 2)\<close> for \<open>n = 3\<close>. When attempt \<open>j\<close> is the first to obtain a transaction
  id, the run is the same prefix up to \<open>j\<close>, one confirmation poll, and the id is returned.
\<close>

theorem submission_retry_bound:
  fixes n :: nat
  shows
  "length (filter is_send (snd (send_serialized_transaction prepare s (int n) d))) \<le> n \<and>
   (0 < n \<and> (\<forall>k<n. \<not> is_txid (s k)) \<longrightarrow>
      send_serialized_transaction (Inr ()) s (int n) d =
        (TxErrorMessage ''All transaction attempts failed'',
         failed_prefix d (n - 1) @ [Send (n - 1)]) \<and>
      slept (snd (send_serialized_transaction (Inr ()) s (int n) d)) = d * (2 ^ (n - 1) - 1)) \<and>
   (\<forall>j v. j < n \<and> (\<forall>k<j. \<not> is_txid (s k)) \<and> s j = SendTxid v \<longrightarrow>
      send_serialized_transaction (Inr ()) s (int n) d =
        (TxResult (JStr v), failed_prefix d j @ [Send j, Confirm v]))"
proof (intro conjI impI allI)
  show "length (filter is_send (snd (send_serialized_transaction prepare s (int n) d))) \<le> n"
    using send_attempts_count[of s "int n" d 0]
    by (cases prepare) (simp_all add: send_serialized_transaction_def)
next
  assume a: "0 < n \<and> (\<forall>k<n. \<not> is_txid (s k))"
  then have last: "n - 1 < n" "\<forall>k<n - 1. \<not> is_txid (s k)" "\<not> is_txid (s (n - 1))" by auto
  have "send_attempts s (int n) d (n - 1) =
          (TxErrorMessage ''All transaction attempts failed'', [Send (n - 1)])"
    using a send_attempts_fail_step[of "n - 1" "int n" s d] last(3)
          send_attempts_done[of "Suc (n - 1)" "int n" s d]
    by (simp add: backoff_def)
  with send_attempts_prefix[OF last(1,2), of d]
  show run: "send_serialized_transaction (Inr ()) s (int n) d =
        (TxErrorMessage ''All transaction attempts failed'',
         failed_prefix d (n - 1) @ [Send (n - 1)])"
    by (simp add: send_serialized_transaction_def)
  show "slept (snd (send_serialized_transaction (Inr ()) s (int n) d)) = d * (2 ^ (n - 1) - 1)"
    unfolding run by (simp add: slept_append slept_failed_prefix)
next
  fix j v
  assume a: "j < n \<and> (\<forall>k<j. \<not> is_txid (s k)) \<and> s j = SendTxid v"
  then have "send_attempts s (int n) d j = (TxResult (JStr v), [Send j, Confirm v])"
    using send_attempts_ok_step[of j "int n" s v d] by simp
  with send_attempts_prefix[of j n s d] a
  show "send_serialized_transaction (Inr ()) s (int n) d =
        (TxResult (JStr v), failed_prefix d j @ [Send j, Confirm v])"
    by (simp add: send_serialized_transaction_def)
qed

theorem submission_retry_bound_witness:
  "send_serialized_transaction (Inr ()) (\<lambda>k. SendNoValue) 3 2 =
     (TxErrorMessage ''All transaction attempts failed'',
      [Send 0, Sleep 2, Send 1, Sleep 4, Send 2]) \<and>
   slept (snd (send_serialized_transaction (Inr ()) (\<lambda>k. SendNoValue) 3 2)) = 2 * (1 + 2) \<and>
   send_serialized_transaction (Inr ()) (\<lambda>k. if k = 1 then SendTxid ''sig'' else SendNoValue) 3 2 =
     (TxResult (JStr ''sig''), [Send 0, Sleep 2, Send 1, Confirm ''sig''])"
proof -
  have fail: "0 < (3::nat) \<and> (\<forall>k<3::nat. \<not> is_txid ((\<lambda>k. SendNoValue) k))"
    by simp
  have ok: "(1::nat) < 3 \<and>
      (\<forall>k<1::nat. \<not> is_txid ((\<lambda>k. if k = 1 then SendTxid ''sig'' else SendNoValue) k)) \<and>
      (\<lambda>k::nat. if k = 1 then SendTxid ''sig'' else SendNoValue) 1 = SendTxid ''sig''"
    by simp
  have pre2: "failed_prefix 2 2 = [Send 0, Sleep 2, Send 1, Sleep 4]"
    by (simp add: failed_prefix_def upt_rec)
  have pre1: "failed_prefix 2 (Suc 0) = [Send 0, Sleep 2]"
    by (simp add: failed_prefix_def)
  from submission_retry_bound[of "Inr ()" "\<lambda>k. SendNoValue" 3 2] fail
  have a: "send_serialized_transaction (Inr ()) (\<lambda>k. SendNoValue) (int 3) 2 =
        (TxErrorMessage ''All transaction attempts failed'',
         failed_prefix 2 (3 - 1) @ [Send (3 - 1)]) \<and>
      slept (snd (send_serialized_transaction (Inr ()) (\<lambda>k. SendNoValue) (int 3) 2))
        = 2 * (2 ^ (3 - 1) - 1)"
    by blast
  from submission_retry_bound[of "Inr ()"
         "\<lambda>k. if k = 1 then SendTxid ''sig'' else SendNoValue" 3 2] ok
  have b: "send_serialized_transaction (Inr ())
             (\<lambda>k. if k = 1 then SendTxid ''sig'' else SendNoValue) (int 3) 2 =
           (TxResult (JStr ''sig''), failed_prefix 2 1 @ [Send 1, Confirm ''sig''])"
    by blast
  from a b show ?thesis by (simp add: pre2 pre1)
qed

text \<open>
  The claim as worded has a third backoff after the last attempt (\<open>d * (1 + 2 + 4)\<close>):
  with \<open>max_retries = 3\<close> and \<open>d = 2\<close> a run whose attempts all fail sleeps 6 seconds, not 14.
\<close>

theorem submission_total_backoff_counterexample:
  "slept (snd (send_serialized_transaction (Inr ()) (\<lambda>k. SendNoValue) 3 2)) = 6 \<and>
   (6::int) \<noteq> 2 * (1 + 2 + 4)"
  by (simp add: send_serialized_transaction_def send_attempts.simps backoff_def)

subsection \<open>Fallback submission and the placeholder signature\<close>

declare fallback_attempts.simps [simp del]

text \<open>
  Claim C6. The claim says a reply carrying the all-ones placeholder signature is never
  returned as a success. The source retries it only while \<open>attempt < max_retries - 1\<close>;
  on the last attempt control falls through to \<open>return {"result": tx_sig}\<close>. A node that
  answers every one of the three requests with the placeholder: the first two are
  retried after backoffs of 2 and 4 seconds, the third is returned as the result.
  The same happens at once with \<open>max_retries = 1\<close>.
\<close>

theorem fallback_returns_placeholder_on_last_attempt:
  "send_serialized_transaction_fallback
     (\<lambda>k. Http 200 (Json (JObj [(''result'', JStr placeholder_signature)]))) 3 2 =
   (TxResult (JStr placeholder_signature), [Send 0, Sleep 2, Send 1, Sleep 4, Send 2]) \<and>
   send_serialized_transaction_fallback
     (\<lambda>k. Http 200 (Json (JObj [(''result'', JStr placeholder_signature)]))) 1 2 =
   (TxResult (JStr placeholder_signature), [Send 0])"
  by (simp add: send_serialized_transaction_fallback_def fallback_attempts.simps
        fallback_attempt_def fallback_try_body_def)

subsection \<open>Wallet balance query\<close>

lemma bind_exn_cases:
  "bind_exn m f = r \<Longrightarrow> (\<exists>e. m = Inl e \<and> r = Inl e) \<or> (\<exists>x. m = Inr x \<and> r = f x)"
  by (cases m) auto

lemma inner_value_failed:
  "(case map_of inner ''value'' of Some (JNum r) \<Rightarrow> False | Some (JBool b) \<Rightarrow> False | _ \<Rightarrow> True) \<Longrightarrow>
   bind_exn (py_in ''value'' (JObj inner)) (\<lambda>has_value.
      if has_value then bind_exn (py_getitem (JObj inner) ''value'') div_1e9 else Inr 0)
   = Inr 0 \<or>
   (\<exists>e. bind_exn (py_in ''value'' (JObj inner)) (\<lambda>has_value.
      if has_value then bind_exn (py_getitem (JObj inner) ''value'') div_1e9 else Inr 0) = Inl e)"
  by (auto split: option.splits json.splits simp: map_of_eq_None_iff)

lemma not_obj_value_failed:
  "\<forall>kvs. inner \<noteq> JObj kvs \<Longrightarrow>
   bind_exn (py_in ''value'' inner) (\<lambda>has_value.
      if has_value then bind_exn (py_getitem inner ''value'') div_1e9 else Inr 0)
   = Inr 0 \<or>
   (\<exists>e. bind_exn (py_in ''value'' inner) (\<lambda>has_value.
      if has_value then bind_exn (py_getitem inner ''value'') div_1e9 else Inr 0) = Inl e)"
  by (cases inner) auto

lemma json_failed:
  "\<not> is_balance_reply result \<Longrightarrow>
   balance_fallback_body (Http 200 (Json result)) = Inr 0 \<or>
   (\<exists>e. balance_fallback_body (Http 200 (Json result)) = Inl e)"
proof (cases result)
  case (JObj kvs)
  assume nb: "\<not> is_balance_reply result"
  show ?thesis
  proof (cases "map_of kvs ''result''")
    case None
    then have "''result'' \<notin> fst ` set kvs" by (simp add: map_of_eq_None_iff)
    with JObj show ?thesis by (simp add: balance_fallback_body_def)
  next
    case (Some inner)
    then have "''result'' \<in> fst ` set kvs" by (metis map_of_eq_None_iff option.distinct(1))
    with JObj Some have body: "balance_fallback_body (Http 200 (Json result)) =
        bind_exn (py_in ''value'' inner) (\<lambda>has_value.
          if has_value then bind_exn (py_getitem inner ''value'') div_1e9 else Inr 0)"
      by (simp add: balance_fallback_body_def)
    show ?thesis
    proof (cases "\<exists>ikvs. inner = JObj ikvs")
      case True
      then obtain ikvs where i: "inner = JObj ikvs" by blast
      with nb JObj Some have
        "(case map_of ikvs ''value'' of Some (JNum r) \<Rightarrow> False | Some (JBool b) \<Rightarrow> False | _ \<Rightarrow> True)"
        by (auto split: option.splits json.splits)
      from inner_value_failed[OF this] show ?thesis unfolding body i .
    next
      case False
      then have "\<forall>kvs. inner \<noteq> JObj kvs" by blast
      from not_obj_value_failed[OF this] show ?thesis unfolding body .
    qed
  qed
qed (auto simp: balance_fallback_body_def)

lemma fallback_body_failed:
  "fallback_failed fallback \<Longrightarrow>
   balance_fallback_body fallback = Inr 0 \<or> (\<exists>e. balance_fallback_body fallback = Inl e)"
proof (cases fallback)
  case (PostRaises e)
  then show ?thesis by (simp add: balance_fallback_body_def)
next
  case (Http status_code b)
  assume f: "fallback_failed fallback"
  show ?thesis
  proof (cases "status_code = 200")
    case False
    with Http show ?thesis by (simp add: balance_fallback_body_def)
  next
    case True
    show ?thesis
    proof (cases b)
      case (JsonRaises e)
      with Http True show ?thesis by (simp add: balance_fallback_body_def)
    next
      case (Json result)
      with f Http True have "\<not> is_balance_reply result" by simp
      from json_failed[OF this] Http True Json show ?thesis by simp
    qed
  qed
qed

text \<open>
  Claim C10. \<open>get_wallet_balance\<close> always returns a number: no outcome of the primary
  client call and no reply to the fallback request makes it raise. When the primary call
  raises and the fallback fails too (the request raises, the status is not 200, the body
  does not parse or carries no numeric \<open>result.value\<close>), the number returned is 0, which
  is also what it returns for a wallet that holds 0 lamports.
\<close>

theorem wallet_balance_never_raises:
  "(\<exists>b. get_wallet_balance primary fallback = Inr b) \<and>
   (fallback_failed fallback \<longrightarrow> get_wallet_balance (Inl e) fallback = Inr 0) \<and>
   get_wallet_balance (Inr 0) fallback = Inr 0"
proof (intro conjI impI)
  show "\<exists>b. get_wallet_balance primary fallback = Inr b"
  proof (cases primary)
    case (Inr lamports)
    then have "get_wallet_balance primary fallback = Inr (of_int lamports / 10 ^ 9)"
      by (simp add: get_wallet_balance_def)
    then show ?thesis by (rule exI)
  next
    case (Inl err)
    show ?thesis
    proof (cases "balance_fallback_body fallback")
      case (Inl fallback_error)
      with \<open>primary = Inl err\<close> have "get_wallet_balance primary fallback = Inr 0"
        by (simp add: get_wallet_balance_def)
      then show ?thesis by (rule exI)
    next
      case (Inr balance_sol)
      with \<open>primary = Inl err\<close> have "get_wallet_balance primary fallback = Inr balance_sol"
        by (simp add: get_wallet_balance_def)
      then show ?thesis by (rule exI)
    qed
  qed
  show "get_wallet_balance (Inr 0) fallback = Inr 0"
    by (simp add: get_wallet_balance_def)
  assume "fallback_failed fallback"
  from fallback_body_failed[OF this]
  show "get_wallet_balance (Inl e) fallback = Inr 0"
    by (auto simp: get_wallet_balance_def)
qed

theorem wallet_balance_never_raises_witness:
  "fallback_failed (Http 503 (Json JNull)) \<and>
   fallback_failed (Http 200 (Json (JObj [(''result'', JStr ''no value here'')]))) \<and>
   get_wallet_balance (Inl (External ''timeout'')) (Http 503 (Json JNull)) = Inr 0 \<and>
   get_wallet_balance (Inl (External ''timeout''))
     (Http 200 (Json (JObj [(''result'', JStr ''no value here'')]))) = Inr 0 \<and>
   get_wallet_balance (Inr 0) (Http 503 (Json JNull)) = Inr 0"
  using wallet_balance_never_raises[of "Inr 0" "Http 503 (Json JNull)" "External ''timeout''"]
        wallet_balance_never_raises[of "Inr 0"
          "Http 200 (Json (JObj [(''result'', JStr ''no value here'')]))" "External ''timeout''"]
  by simp

subsection \<open>Safety gate of the trade execution action\<close>



subsection \<open>Dry run\<close>

lemma real_result_unmarked:
  "map_of (fst (execute_trade_tool env trade_type token_address amount_sol quote_data False reasoning))
      ''dry_run'' \<noteq> Some (PBool True) \<and>
   map_of (fst (execute_trade_tool env trade_type token_address amount_sol quote_data False reasoning))
      ''simulated_result'' = None"
  by (auto simp: execute_trade_tool_def execute_trade_body_def split: sum.splits prod.splits)

lemma real_result_unmarked_pure:
  "\<not> truthy (kwargs_get kwargs ''dry_run'' (JBool True)) \<Longrightarrow>
   map_of (fst (execute_tool_trade env kwargs)) ''message'' = None \<and>
   map_of (fst (execute_tool_trade env kwargs)) ''quote'' = None"
  by (auto simp: execute_tool_trade_def execute_tool_trade_body_def Let_def split: sum.splits prod.splits)

text \<open>
  Claim C2. A call with \<open>dry_run = true\<close> has an empty trace: nothing is requested from
  the network and no transaction is submitted, so the wallet is untouched and a
  repetition of the call changes nothing. \<open>execute_trade_tool\<close> returns \<open>success = True\<close>,
  the trade type, token address, amount and reasoning it was given, and the markers
  \<open>"dry_run": True\<close> and \<open>"simulated_result"\<close>, which no result of a call with
  \<open>dry_run = false\<close> carries. The \<open>execute_trade\<close> branch of \<open>_execute_tool\<close> returns
  \<open>success = True\<close>, the reasoning and the quote it was given and the message
  \<open>"Dry run - <trade type> <amount> SOL of <token>"\<close>; no result of a call with
  \<open>dry_run = false\<close> has a \<open>"message"\<close> or a \<open>"quote"\<close> entry.
\<close>

theorem dry_run_trade_is_simulated:
  "execute_trade_tool env trade_type token_address amount_sol quote_data True reasoning =
     ([(''success'', PBool True),
       (''message'', PStr (''Dry run: '' @ trade_type @ '' '' @ py_str env (JNum amount_sol)
                            @ '' SOL of '' @ token_address)),
       (''trade_type'', PStr trade_type),
       (''token_address'', PStr token_address),
       (''amount_sol'', PNum amount_sol),
       (''dry_run'', PBool True),
       (''reasoning'', PStr reasoning),
       (''simulated_result'', PDict [(''transaction_id'', PStr ''dry_run_simulation''),
                                     (''status'', PStr ''simulated_success'')]),
       (''timestamp'', PStr (now_iso env))], []) \<and>
   \<not> submits (snd (execute_trade_tool env trade_type token_address amount_sol quote_data True
                       reasoning)) \<and>
   map_of (fst (execute_trade_tool env' trade_type' token_address' amount_sol' quote_data' False
                  reasoning')) ''dry_run'' \<noteq> Some (PBool True) \<and>
   map_of (fst (execute_trade_tool env' trade_type' token_address' amount_sol' quote_data' False
                  reasoning')) ''simulated_result'' = None \<and>
   (truthy (kwargs_get kwargs ''dry_run'' (JBool True)) \<longrightarrow>
      execute_tool_trade env kwargs =
        ([(''success'', PBool True),
          (''message'', PStr (''Dry run - '' @ py_str env (kwargs_get kwargs ''trade_type'' JNull)
                               @ '' '' @ py_str env (kwargs_get kwargs ''amount_sol'' JNull)
                               @ '' SOL of ''
                               @ py_str env (kwargs_get kwargs ''token_address'' JNull))),
          (''reasoning'', PJson (kwargs_get kwargs ''reasoning'' JNull)),
          (''quote'', PJson (kwargs_get kwargs ''quote_data'' JNull))], []) \<and>
      \<not> submits (snd (execute_tool_trade env kwargs))) \<and>
   (\<not> truthy (kwargs_get kwargs' ''dry_run'' (JBool True)) \<longrightarrow>
      map_of (fst (execute_tool_trade env' kwargs')) ''message'' = None \<and>
      map_of (fst (execute_tool_trade env' kwargs')) ''quote'' = None)"
  using real_result_unmarked[of env' trade_type' token_address' amount_sol' quote_data' reasoning']
        real_result_unmarked_pure[of kwargs' env']
  by (simp add: execute_trade_tool_def execute_trade_body_def execute_tool_trade_def
        execute_tool_trade_body_def submits_def)

theorem dry_run_trade_is_simulated_witness:
  "truthy (kwargs_get [(''trade_type'', JStr ''buy''), (''dry_run'', JBool True)]
             ''dry_run'' (JBool True)) \<and>
   \<not> truthy (kwargs_get [(''dry_run'', JBool False)] ''dry_run'' (JBool True)) \<and>
   execute_tool_trade
     \<lparr>py_str = (\<lambda>v. ''x''), now_iso = ''2025-07-06T03:37:22'',
      swap_transaction = Inr (JStr ''AQID''), tx_prepare = Inr (),
      tx_send_raw = (\<lambda>k. SendTxid ''sig''), balance_primary = Inr 1000000000,
      balance_fallback = PostRaises (External ''unused'')\<rparr>
     [(''trade_type'', JStr ''buy''), (''dry_run'', JBool True)] =
     ([(''success'', PBool True),
       (''message'', PStr ''Dry run - x x SOL of x''),
       (''reasoning'', PJson JNull),
       (''quote'', PJson JNull)], []) \<and>
   map_of (fst (execute_tool_trade
     \<lparr>py_str = (\<lambda>v. ''x''), now_iso = ''2025-07-06T03:37:22'',
      swap_transaction = Inr (JStr ''AQID''), tx_prepare = Inr (),
      tx_send_raw = (\<lambda>k. SendTxid ''sig''), balance_primary = Inr 1000000000,
      balance_fallback = PostRaises (External ''unused'')\<rparr>
     [(''dry_run'', JBool False)])) ''message'' = None"
  using dry_run_trade_is_simulated[of
          "\<lparr>py_str = (\<lambda>v. ''x''), now_iso = ''2025-07-06T03:37:22'',
            swap_transaction = Inr (JStr ''AQID''), tx_prepare = Inr (),
            tx_send_raw = (\<lambda>k. SendTxid ''sig''), balance_primary = Inr 1000000000,
            balance_fallback = PostRaises (External ''unused'')\<rparr>"
          "''buy''" "''Mint''" "1/2" "JNull" "''why''"
          "\<lparr>py_str = (\<lambda>v. ''x''), now_iso = ''2025-07-06T03:37:22'',
            swap_transaction = Inr (JStr ''AQID''), tx_prepare = Inr (),
            tx_send_raw = (\<lambda>k. SendTxid ''sig''), balance_primary = Inr 1000000000,
            balance_fallback = PostRaises (External ''unused'')\<rparr>"
          "''buy''" "''Mint''" "1/2" "JNull" "''why''"
          "[(''trade_type'', JStr ''buy''), (''dry_run'', JBool True)]"
          "[(''dry_run'', JBool False)]"]
  by (simp add: kwargs_get_def)

subsection \<open>Circuit breaker of the background worker\<close>

lemma loop_body_errored:
  assumes "no_stop it cur" "errored_cycle it cur"
  shows "loop_body it errors cur =
           (if errors + 1 \<ge> max_consecutive_errors then Inl (TooManyErrors, errors + 1)
            else Inr (errors + 1, case cycle it cur of Inl e \<Rightarrow> cur | Inr s \<Rightarrow> Some s))"
  using assms
  by (auto simp: loop_body_def no_stop_def errored_cycle_def Let_def split: sum.splits)

lemma loop_body_clean:
  assumes "no_stop it cur" "clean_cycle it cur"
  shows "loop_body it errors cur =
           Inr (0, case cycle it cur of Inl e \<Rightarrow> cur | Inr s \<Rightarrow> Some s)"
  using assms
  by (auto simp: loop_body_def no_stop_def clean_cycle_def Let_def split: sum.splits)

lemma loop_errored_step:
  assumes "no_stop (its i) cur" "errored_cycle (its i) cur"
  shows "background_trading_loop (Suc fuel) its i errors cur =
           (if errors + 1 \<ge> max_consecutive_errors
            then Some \<lparr>reason = TooManyErrors, cycles_run = Suc i, consecutive_errors = errors + 1\<rparr>
            else background_trading_loop fuel its (Suc i) (errors + 1)
                   (case cycle (its i) cur of Inl e \<Rightarrow> cur | Inr s \<Rightarrow> Some s))"
  using assms loop_body_errored[OF assms, of errors]
  by (simp add: no_stop_def)

text \<open>
  Claim C4, as the code has it. While no stop is requested (the stop flag is not set
  at the loop condition nor after the cycle) and no returned state carries
  \<open>should_stop\<close> or \<open>fatal_error\<close>: from a point where the error counter is zero, three
  cycles in a row that raise or return a state with an error make the worker leave the
  loop after exactly the third of them, with the counter at 3, given fuel for three
  iterations or more; it does not leave earlier and runs no fourth cycle. A clean cycle
  puts the counter back to zero, whatever it was, and the loop goes round again.
\<close>

theorem circuit_breaker_trips_at_three:
  "((\<forall>k<3. \<forall>c. no_stop (its (i + k)) c \<and> errored_cycle (its (i + k)) c) \<longrightarrow>
      background_trading_loop (3 + fuel) its i 0 cur =
        Some \<lparr>reason = TooManyErrors, cycles_run = i + 3, consecutive_errors = 3\<rparr>) \<and>
   (no_stop (its i) cur \<and> clean_cycle (its i) cur \<longrightarrow>
      background_trading_loop (Suc fuel) its i errors cur =
        background_trading_loop fuel its (Suc i) 0
          (case cycle (its i) cur of Inl e \<Rightarrow> cur | Inr s \<Rightarrow> Some s))"
proof (intro conjI impI)
  assume a: "\<forall>k<3. \<forall>c. no_stop (its (i + k)) c \<and> errored_cycle (its (i + k)) c"
  have h0: "\<And>c. no_stop (its i) c" "\<And>c. errored_cycle (its i) c"
    using a[rule_format, of 0] by simp_all
  have h1: "\<And>c. no_stop (its (Suc i)) c" "\<And>c. errored_cycle (its (Suc i)) c"
    using a[rule_format, of 1] by simp_all
  have h2: "\<And>c. no_stop (its (Suc (Suc i))) c" "\<And>c. errored_cycle (its (Suc (Suc i))) c"
    using a[rule_format, of 2] by simp_all
  have f: "3 + fuel = Suc (Suc (Suc fuel))" by simp
  show "background_trading_loop (3 + fuel) its i 0 cur =
        Some \<lparr>reason = TooManyErrors, cycles_run = i + 3, consecutive_errors = 3\<rparr>"
    unfolding f
    by (simp add: loop_errored_step h0 h1 h2 max_consecutive_errors_def
          del: background_trading_loop.simps)
next
  assume "no_stop (its i) cur \<and> clean_cycle (its i) cur"
  then have n: "no_stop (its i) cur" and c: "clean_cycle (its i) cur" by simp_all
  from n loop_body_clean[OF n c, of errors]
  show "background_trading_loop (Suc fuel) its i errors cur =
        background_trading_loop fuel its (Suc i) 0
          (case cycle (its i) cur of Inl e \<Rightarrow> cur | Inr s \<Rightarrow> Some s)"
    by (simp add: no_stop_def)
qed


theorem circuit_breaker_trips_at_three_witness:
  "background_trading_loop 3
     (\<lambda>k. \<lparr>stop_at_loop_head = False,
            cycle = (\<lambda>c. if even k then Inl (External ''quota exhausted'')
                         else Inr (empty_state\<lparr>error := Some ''oracle failed''\<rparr>)),
            stop_after_cycle = False\<rparr>) 0 0 None =
     Some \<lparr>reason = TooManyErrors, cycles_run = 3, consecutive_errors = 3\<rparr> \<and>
   background_trading_loop 7
     (\<lambda>k. \<lparr>stop_at_loop_head = False,
            cycle = (\<lambda>c. if k = 2 then Inr (empty_state\<lparr>cycles_completed := Some 3\<rparr>)
                         else Inr (empty_state\<lparr>error := Some ''oracle failed''\<rparr>)),
            stop_after_cycle = False\<rparr>) 0 0 None =
     Some \<lparr>reason = TooManyErrors, cycles_run = 6, consecutive_errors = 3\<rparr>"
proof -
  let ?a = "\<lambda>k::nat. \<lparr>stop_at_loop_head = False,
            cycle = (\<lambda>c::agent_state option. if even k then Inl (External ''quota exhausted'')
                         else Inr (empty_state\<lparr>error := Some ''oracle failed''\<rparr>)),
            stop_after_cycle = False\<rparr>"
  let ?b = "\<lambda>k::nat. \<lparr>stop_at_loop_head = False,
            cycle = (\<lambda>c::agent_state option.
                         if k = 2 then Inr (empty_state\<lparr>cycles_completed := Some 3\<rparr>)
                         else Inr (empty_state\<lparr>error := Some ''oracle failed''\<rparr>)),
            stop_after_cycle = False\<rparr>"
  have ha: "\<forall>k<3. \<forall>c. no_stop (?a (0 + k)) c \<and> errored_cycle (?a (0 + k)) c"
    by (simp add: no_stop_def errored_cycle_def empty_state_def str_truthy_def flag_truthy_def)
  have hb: "\<forall>k<3. \<forall>c. no_stop (?b (3 + k)) c \<and> errored_cycle (?b (3 + k)) c"
    by (simp add: no_stop_def errored_cycle_def empty_state_def str_truthy_def flag_truthy_def)
  have a: "background_trading_loop (3 + 0) ?a 0 0 None =
     Some \<lparr>reason = TooManyErrors, cycles_run = 0 + 3, consecutive_errors = 3\<rparr>"
    using circuit_breaker_trips_at_three[of ?a 0 0 None] ha by blast
  have b: "background_trading_loop (3 + 1) ?b 3 0 c =
     Some \<lparr>reason = TooManyErrors, cycles_run = 3 + 3, consecutive_errors = 3\<rparr>" for c
    using circuit_breaker_trips_at_three[of ?b 3 1 c] hb by blast
  let ?err = "Some (empty_state\<lparr>error := Some ''oracle failed''\<rparr>)"
  let ?ok = "Some (empty_state\<lparr>cycles_completed := Some 3\<rparr>)"
  have nb: "no_stop (?b k) c" for k c
    by (simp add: no_stop_def empty_state_def flag_truthy_def)
  have eb: "k \<noteq> 2 \<Longrightarrow> errored_cycle (?b k) c" for k c
    by (simp add: errored_cycle_def empty_state_def str_truthy_def)
  have cb: "clean_cycle (?b 2) c" for c
    by (simp add: clean_cycle_def empty_state_def str_truthy_def)
  have s0: "background_trading_loop (Suc 6) ?b 0 0 None = background_trading_loop 6 ?b (Suc 0) 1 ?err"
    using loop_errored_step[of ?b 0 None 6 0, OF nb eb] by (simp add: max_consecutive_errors_def)
  have s1: "background_trading_loop (Suc 5) ?b (Suc 0) 1 ?err = background_trading_loop 5 ?b 2 2 ?err"
    using loop_errored_step[of ?b "Suc 0" ?err 5 1, OF nb eb]
    by (simp add: max_consecutive_errors_def numeral_2_eq_2)
  have s2: "background_trading_loop (Suc 4) ?b 2 2 ?err = background_trading_loop 4 ?b 3 0 ?ok"
    using circuit_breaker_trips_at_three[of ?b 2 4 ?err 2] nb[of 2 ?err] cb[of ?err]
    by (simp add: numeral_3_eq_3 numeral_2_eq_2)
  have n7: "(7::nat) = Suc 6" and n6: "(6::nat) = Suc 5" and n5: "(5::nat) = Suc 4"
    and n4: "(3::nat) + 1 = 4"
    by simp_all
  have "background_trading_loop 7 ?b 0 0 None = background_trading_loop 6 ?b (Suc 0) 1 ?err"
    unfolding n7 by (rule s0)
  also have "\<dots> = background_trading_loop 5 ?b 2 2 ?err"
    unfolding n6 by (rule s1)
  also have "\<dots> = background_trading_loop 4 ?b 3 0 ?ok"
    unfolding n5 by (rule s2)
  finally have pre: "background_trading_loop 7 ?b 0 0 None =
      background_trading_loop (3 + 1) ?b 3 0 ?ok"
    unfolding n4 .
  from a show ?thesis unfolding pre b by simp
qed

text \<open>
  The claim as worded has no such condition. A worker whose every cycle returns an
  errored state leaves the loop after the first cycle when that state carries
  \<open>should_stop\<close> (the check of line 211), and also when the stop flag is set after the
  first cycle (line 227).
\<close>

theorem circuit_breaker_stops_early_counterexample:
  "errored_cycle
     \<lparr>stop_at_loop_head = False,
      cycle = (\<lambda>c. Inr (empty_state\<lparr>error := Some ''oracle failed'', should_stop := Some True\<rparr>)),
      stop_after_cycle = False\<rparr> None \<and>
   background_trading_loop 5
     (\<lambda>k. \<lparr>stop_at_loop_head = False,
            cycle = (\<lambda>c. Inr (empty_state\<lparr>error := Some ''oracle failed'',
                                           should_stop := Some True\<rparr>)),
            stop_after_cycle = False\<rparr>) 0 0 None =
     Some \<lparr>reason = StateStop, cycles_run = 1, consecutive_errors = 1\<rparr> \<and>
   background_trading_loop 5
     (\<lambda>k. \<lparr>stop_at_loop_head = False,
            cycle = (\<lambda>c. Inr (empty_state\<lparr>error := Some ''oracle failed''\<rparr>)),
            stop_after_cycle = True\<rparr>) 0 0 None =
     Some \<lparr>reason = StopFlag, cycles_run = 1, consecutive_errors = 1\<rparr>"
  by (simp add: eval_nat_numeral errored_cycle_def loop_body_def empty_state_def str_truthy_def
        flag_truthy_def max_consecutive_errors_def)

subsection \<open>Start guard of the background runner\<close>

text \<open>
  Claim C8, as the code has it. In every process state in which the running flag is
  set, \<open>start_agent_background\<close> returns \<open>False\<close> and leaves every runner variable
  as it was: no second worker thread is created. The flag is set by the worker's first
  statement, not by \<open>start_agent_background\<close>: from a state in which no session is
  running, a start, the new worker reaching its first statement, and a second start
  return \<open>True\<close> then \<open>False\<close>, and one worker has been added.
\<close>

theorem start_rejected_while_running:
  "(agent_running r \<longrightarrow> start_agent_background raises r = (False, r)) \<and>
   (\<not> agent_running r \<longrightarrow>
      fst (run_schedule [Start, WorkerBegins (length (workers r)), Start] r) = [True, False] \<and>
      workers (snd (run_schedule [Start, WorkerBegins (length (workers r)), Start] r))
        = workers r @ [Looping])"
  by (simp add: start_agent_background_def worker_begin_def)

theorem start_rejected_while_running_witness:
  "start_agent_background False (initial_runner\<lparr>agent_running := True\<rparr>)
     = (False, initial_runner\<lparr>agent_running := True\<rparr>) \<and>
   fst (run_schedule [Start, WorkerBegins 0, Start] initial_runner) = [True, False] \<and>
   active_workers (snd (run_schedule [Start, WorkerBegins 0, Start] initial_runner)) = 1"
  using start_rejected_while_running[of "initial_runner\<lparr>agent_running := True\<rparr>" False]
        start_rejected_while_running[of initial_runner False]
  by (simp add: initial_runner_def active_workers_def)

text \<open>
  The claim as worded concludes that two calls back to back always return \<open>True\<close> then
  \<open>False\<close> and that at most one session is active. When the second call comes before the
  first worker has executed \<open>_agent_running = True\<close>, both calls return \<open>True\<close>, two
  workers are created, and both run.
\<close>

theorem start_twice_before_worker_runs_counterexample:
  "fst (run_schedule [Start, Start] initial_runner) = [True, True] \<and>
   workers (snd (run_schedule [Start, Start] initial_runner)) = [Spawned, Spawned] \<and>
   active_workers (snd (run_schedule [Start, Start, WorkerBegins 0, WorkerBegins 1] initial_runner)) = 2"
  by (simp add: start_agent_background_def worker_begin_def initial_runner_def active_workers_def)

subsection \<open>Faults inside a cycle\<close>

text \<open>
  Claim C3. The claim says that after any exception raised during a cycle the state
  returned by the cycle entry point has \<open>error\<close>, \<open>error_timestamp\<close> and \<open>error_type\<close>
  set. An exception raised by the reasoning service is caught inside
  \<open>run_trading_cycle\<close>, whose handler counts the cycle, appends an entry to \<open>error_log\<close>
  and saves the state, but does not write \<open>error\<close>; \<open>run_trading_agent\<close> then finds no
  error and marks the state healthy. Input: the previous state
  \<open>{"cycles_completed": 5, "wallet_balance_sol": 1}\<close>, a session id, no parameter
  overrides, and a reasoning service that raises "oracle unavailable". The state
  returned and saved has \<open>cycles_completed = 6\<close>, the fault in \<open>error_log\<close> only,
  no \<open>error\<close>, \<open>error_timestamp\<close> or \<open>error_type\<close>, and \<open>state_healthy = True\<close>.
\<close>

theorem cycle_fault_not_recorded_in_error:
  "run_trading_agent
     \<lparr>clock = ''2025-07-06T03:37:22'', load_agent_state = Inr None,
      create_initial_state = empty_state\<lparr>cycles_completed := Some 0\<rparr>,
      validate_state_structure = (\<lambda>s. True), migrate_legacy_state = (\<lambda>s. s),
      update_portfolio_metrics = Inr,
      agent_invoke = Inl (External ''oracle unavailable'')\<rparr>
     None
     (Some (empty_state\<lparr>cycles_completed := Some 5, wallet_balance_sol := Some 1\<rparr>))
     (Some ''trading_session_20250706_033722'') =
   (empty_state
      \<lparr>cycles_completed := Some 6, wallet_balance_sol := Some 1,
       thread_id := Some ''trading_session_20250706_033722'', session_active := Some True,
       error_log := Some [\<lparr>el_timestamp = ''2025-07-06T03:37:22'',
                            el_error = ''oracle unavailable'',
                            el_error_type = ''complete_langgraph_execution''\<rparr>],
       agent_reasoning := Some ''Complete LangGraph execution error: oracle unavailable'',
       last_cycle_timestamp := Some ''2025-07-06T03:37:22'',
       state_healthy := Some True\<rparr>,
    [empty_state
      \<lparr>cycles_completed := Some 6, wallet_balance_sol := Some 1,
       thread_id := Some ''trading_session_20250706_033722'', session_active := Some True,
       error_log := Some [\<lparr>el_timestamp = ''2025-07-06T03:37:22'',
                            el_error = ''oracle unavailable'',
                            el_error_type = ''complete_langgraph_execution''\<rparr>],
       agent_reasoning := Some ''Complete LangGraph execution error: oracle unavailable''\<rparr>,
     empty_state
      \<lparr>cycles_completed := Some 6, wallet_balance_sol := Some 1,
       thread_id := Some ''trading_session_20250706_033722'', session_active := Some True,
       error_log := Some [\<lparr>el_timestamp = ''2025-07-06T03:37:22'',
                            el_error = ''oracle unavailable'',
                            el_error_type = ''complete_langgraph_execution''\<rparr>],
       agent_reasoning := Some ''Complete LangGraph execution error: oracle unavailable'',
       last_cycle_timestamp := Some ''2025-07-06T03:37:22'',
       state_healthy := Some True\<rparr>]) \<and>
   error (fst (run_trading_agent
     \<lparr>clock = ''2025-07-06T03:37:22'', load_agent_state = Inr None,
      create_initial_state = empty_state\<lparr>cycles_completed := Some 0\<rparr>,
      validate_state_structure = (\<lambda>s. True), migrate_legacy_state = (\<lambda>s. s),
      update_portfolio_metrics = Inr,
      agent_invoke = Inl (External ''oracle unavailable'')\<rparr>
     None
     (Some (empty_state\<lparr>cycles_completed := Some 5, wallet_balance_sol := Some 1\<rparr>))
     (Some ''trading_session_20250706_033722''))) = None"
  by (simp add: run_trading_agent_def agent_try_body_def run_trading_cycle_def cycle_try_body_def
     opt_dict_truthy_def dict_truthy_def empty_state_def str_truthy_def merge_parameters_def
     clear_previous_error_def get_or_def save_agent_state_def Let_def)

text \<open>
  The handler of \<open>run_trading_agent\<close> itself does record the fault in the state: it is
  reached by an exception raised outside the delegated cycle, here by the load of the
  persisted state.
\<close>

lemma outer_handler_records_error:
  "load_agent_state env = Inl e \<Longrightarrow> \<not> opt_dict_truthy previous_state \<Longrightarrow>
   run_trading_agent env parameters previous_state session =
     (let s = (create_initial_state env)
                \<lparr>error := Some (str_of_exception e), error_timestamp := Some (clock env),
                 error_type := Some ''run_trading_agent_failure'',
                 cycles_completed := Some (get_or (cycles_completed (create_initial_state env)) 0 + 1),
                 state_healthy := Some False\<rparr>
      in (s, [s]))"
  by (simp add: run_trading_agent_def agent_try_body_def save_agent_state_def Let_def)

subsection \<open>Status snapshot\<close>

lemma status_leaves_runner: "snd (get_agent_status env get_state_summary r) = r"
  by (cases "status_try_body env get_state_summary r") (simp_all add: get_agent_status_def)

lemma status_body_existing:
  assumes "opt_dict_truthy (current_state r)"
  shows "status_try_body env get_state_summary r =
           bind_exn (get_state_summary (the (current_state r))) (\<lambda>summary. Inl NameError)"
  using assms
  by (simp add: status_try_body_def lookup_self_def Let_def)

lemma status_body_persisted:
  assumes "\<not> opt_dict_truthy (current_state r)" "load_agent_state env = Inr st"
    "opt_dict_truthy st"
  shows "status_try_body env get_state_summary r =
           bind_exn (get_state_summary (the st)) (\<lambda>summary. Inl NameError)"
  using assms
  by (simp add: status_try_body_def lookup_self_def Let_def)

lemma status_from_body:
  "status_try_body env get_state_summary r = Inl e \<Longrightarrow>
   get_agent_status env get_state_summary r =
     ([(''running'', PBool (agent_running r)), (''status'', PStr ''error''),
       (''error'', PExn e), (''state_healthy'', PBool False)], r)"
  by (simp add: get_agent_status_def)

lemma status_of_existing_state:
  assumes "opt_dict_truthy (current_state r)"
  shows "\<exists>e. fst (get_agent_status env get_state_summary r) =
               [(''running'', PBool (agent_running r)), (''status'', PStr ''error''),
                (''error'', PExn e), (''state_healthy'', PBool False)]"
proof -
  have "\<exists>e. status_try_body env get_state_summary r = Inl e"
    unfolding status_body_existing[OF assms]
    by (cases "get_state_summary (the (current_state r))") simp_all
  then obtain e where "status_try_body env get_state_summary r = Inl e" ..
  from status_from_body[OF this] show ?thesis by simp
qed

text \<open>
  Claim C9. The claim says that when a state document exists the snapshot carries the
  running flag, the worker-alive flag, the session id, the cycle count, the balance, the
  position count, the last tool names and the health flag. Building that dictionary
  evaluates \<open>self._determine_status(state)\<close> in a function that has no \<open>self\<close>: the
  \<open>NameError\<close> is caught and the four-entry error dictionary is returned instead, for
  a state held in memory by a running session and for a state found only in the
  persisted document. The runner variables are left as they were.
\<close>

theorem status_of_existing_state_is_error_stub:
  "get_agent_status
     \<lparr>clock = ''2025-07-06T03:37:22'', load_agent_state = Inr None,
      create_initial_state = empty_state\<lparr>cycles_completed := Some 0\<rparr>,
      validate_state_structure = (\<lambda>s. True), migrate_legacy_state = (\<lambda>s. s),
      update_portfolio_metrics = Inr, agent_invoke = Inr []\<rparr>
     (\<lambda>s. Inr (JObj []))
     \<lparr>agent_thread = Some 0, agent_running = True, agent_stop_flag = False,
      current_thread_id = Some ''trading_session_20250706_033722'',
      current_state = Some (empty_state\<lparr>cycles_completed := Some 4,
                                          wallet_balance_sol := Some 1,
                                          tools_used_this_cycle := Some [''get_wallet_balance_tool''],
                                          state_healthy := Some True\<rparr>),
      workers = [Looping]\<rparr> =
   ([(''running'', PBool True), (''status'', PStr ''error''), (''error'', PExn NameError),
     (''state_healthy'', PBool False)],
    \<lparr>agent_thread = Some 0, agent_running = True, agent_stop_flag = False,
      current_thread_id = Some ''trading_session_20250706_033722'',
      current_state = Some (empty_state\<lparr>cycles_completed := Some 4,
                                          wallet_balance_sol := Some 1,
                                          tools_used_this_cycle := Some [''get_wallet_balance_tool''],
                                          state_healthy := Some True\<rparr>),
      workers = [Looping]\<rparr>) \<and>
   fst (get_agent_status
     \<lparr>clock = ''2025-07-06T03:37:22'',
      load_agent_state = Inr (Some (empty_state\<lparr>cycles_completed := Some 4,
                                                 wallet_balance_sol := Some 1\<rparr>)),
      create_initial_state = empty_state\<lparr>cycles_completed := Some 0\<rparr>,
      validate_state_structure = (\<lambda>s. True), migrate_legacy_state = (\<lambda>s. s),
      update_portfolio_metrics = Inr, agent_invoke = Inr []\<rparr>
     (\<lambda>s. Inr (JObj [])) initial_runner) =
   [(''running'', PBool False), (''status'', PStr ''error''), (''error'', PExn NameError),
    (''state_healthy'', PBool False)]"
proof -
  let ?s = "empty_state\<lparr>cycles_completed := Some 4, wallet_balance_sol := Some 1,
                        tools_used_this_cycle := Some [''get_wallet_balance_tool''],
                        state_healthy := Some True\<rparr>"
  let ?p = "empty_state\<lparr>cycles_completed := Some 4, wallet_balance_sol := Some 1\<rparr>"
  let ?r = "\<lparr>agent_thread = Some 0, agent_running = True, agent_stop_flag = False,
           current_thread_id = Some ''trading_session_20250706_033722'',
           current_state = Some ?s, workers = [Looping]\<rparr>"
  let ?e1 = "\<lparr>clock = ''2025-07-06T03:37:22'', load_agent_state = Inr None,
      create_initial_state = empty_state\<lparr>cycles_completed := Some 0\<rparr>,
      validate_state_structure = (\<lambda>s. True), migrate_legacy_state = (\<lambda>s. s),
      update_portfolio_metrics = Inr, agent_invoke = Inr []\<rparr>"
  let ?e2 = "\<lparr>clock = ''2025-07-06T03:37:22'', load_agent_state = Inr (Some ?p),
      create_initial_state = empty_state\<lparr>cycles_completed := Some 0\<rparr>,
      validate_state_structure = (\<lambda>s. True), migrate_legacy_state = (\<lambda>s. s),
      update_portfolio_metrics = Inr, agent_invoke = Inr []\<rparr>"
  have ts: "opt_dict_truthy (Some ?s)" and tp: "opt_dict_truthy (Some ?p)"
    by (simp_all add: opt_dict_truthy_def dict_truthy_def empty_state_def)
  have "opt_dict_truthy (current_state ?r)" using ts by simp
  from status_body_existing[OF this, of ?e1 "\<lambda>s. Inr (JObj [])"]
  have "status_try_body ?e1 (\<lambda>s. Inr (JObj [])) ?r = Inl NameError" by simp
  from status_from_body[OF this]
  have memory: "get_agent_status ?e1 (\<lambda>s. Inr (JObj [])) ?r =
     ([(''running'', PBool True), (''status'', PStr ''error''), (''error'', PExn NameError),
       (''state_healthy'', PBool False)], ?r)" by simp
  have "\<not> opt_dict_truthy (current_state initial_runner)"
    by (simp add: initial_runner_def opt_dict_truthy_def)
  moreover have "load_agent_state ?e2 = Inr (Some ?p)" by simp
  ultimately have "status_try_body ?e2 (\<lambda>s. Inr (JObj [])) initial_runner = Inl NameError"
    using status_body_persisted[of initial_runner ?e2 "Some ?p" "\<lambda>s. Inr (JObj [])"] tp by simp
  from status_from_body[OF this]
  have persisted: "fst (get_agent_status ?e2 (\<lambda>s. Inr (JObj [])) initial_runner) =
     [(''running'', PBool False), (''status'', PStr ''error''), (''error'', PExn NameError),
      (''state_healthy'', PBool False)]" by (simp add: initial_runner_def)
  from memory persisted show ?thesis by (rule conjI)
qed

end
